theory Spec2Isabelle
  imports Complex_Main
begin

section \<open>The machine simulation engine of HaasMachine.js\<close>

text \<open>
  A shallow embedding of the class \<open>HaasMachine\<close>. Each method becomes a function from the
  machine state to the machine state. JavaScript numbers are modelled as real numbers
  (the rounding of IEEE doubles is not modelled); counters that the source only increments
  are natural numbers. Two effects of the source are made explicit in the state:
  \<^item> \<open>Math.random()\<close>: the field \<open>rand\<close> is the sequence of values the calls will return,
    \<open>draws\<close> counts the calls made so far. Every call of the source is one \<open>draw\<close>
    followed by one \<open>consume\<close>, in the source's order of evaluation, and a call behind a
    short-circuiting \<open>&&\<close> is made only when the left operand is true.
  \<^item> \<open>new Date()\<close>: the field \<open>clock\<close> is the sequence of instants the calls will return
    (milliseconds), \<open>reads\<close> counts the calls made so far.
\<close>

subsection \<open>Data model\<close>

datatype machine_type = CNC_MILL | LATHE | PRESS_BRAKE | LASER

datatype execution = EX_IDLE | EX_RUNNING | EX_ALARM | EX_STOPPED

datatype phase =
  PH_IDLE | PH_SPINDLE_RAMP | PH_RAPID | PH_CUTTING | PH_RETRACT | PH_DWELL | PH_FINISH
  | PH_RUNNING

record 'a xyz =
  X :: 'a
  Y :: 'a
  Z :: 'a

record specs_t =
  axisLimits :: "(real \<times> real) xyz"
  spindlePower :: real
  maxRPM :: real
  rapidTraverse :: real
  toolCapacity :: nat

text \<open>The constructor's optional argument \<open>specs\<close>: an absent key is \<open>None\<close>.\<close>

record spec_args =
  axisLimits_arg :: "(real \<times> real) xyz option"
  spindlePower_arg :: "real option"
  maxRPM_arg :: "real option"
  rapidTraverse_arg :: "real option"
  toolCapacity_arg :: "nat option"
  maxTonnage_arg :: "real option"
  maxLaserPower_arg :: "real option"

record tool =
  number :: nat
  type_t :: "string option"
  diameter :: real
  length_t :: real
  currentLife :: real
  maxLife :: real
  flutes :: int
  coating :: "string option"
  description :: string
  inUse :: bool
  totalCuts :: nat

record coolant_t =
  level :: real
  pressure :: real
  temperature_c :: real
  flow :: real

record alarm_entry =
  code :: "int option"
  message :: string
  timestamp_a :: nat
  cyclePhase_a :: phase
  spindleLoad_a :: real
  cleared :: bool

record warning =
  type_w :: string
  severity :: string
  message_w :: string

record machine =
  id_m :: string
  name :: string
  model :: string
  type_m :: machine_type
  specs :: specs_t
  power_m :: bool
  execution :: execution
  cyclePhase :: phase
  timeInPhase :: real
  cycleTimeTarget :: real
  alarm :: "string option"
  alarmCode :: "int option"
  alarmHistory :: "alarm_entry list"
  warnings :: "warning list"
  spindleSpeed :: real
  targetSpindleSpeed :: real
  spindleLoad :: real
  spindleTemp :: real
  spindleHours :: real
  spindleOrientation :: real
  feedRate :: real
  targetFeed :: real
  rapidRate :: real
  axisPositions :: "real xyz"
  servoLoad :: "real xyz"
  servoFollowingError :: "real xyz"
  servoTemp :: "real xyz"
  partCount :: nat
  totalCycles :: nat
  machineOnHours :: real
  productionRate :: int
  batteryVoltage :: real
  temperature :: real
  vibration :: real
  currentAmps :: real
  oilPressure :: real
  oilLevel :: real
  currentTool :: "nat option"
  tools :: "tool list option"
  toolChangeCount :: nat
  toolWear :: real
  coolant :: "coolant_t option"
  tonnage :: real
  maxTonnage :: real
  ramPosition :: real
  backGauge :: real
  bendAngle :: real
  laserPower :: real
  maxLaserPower :: real
  gasPressure :: real
  resonatorTemp :: real
  cutSpeed :: real
  material :: "string option"
  programRunning :: "string option"
  timestamp :: nat
  rand :: "nat \<Rightarrow> real"
  draws :: nat
  clock :: "nat \<Rightarrow> nat"
  reads :: nat

text \<open>
  The fields \<open>currentTool\<close>, \<open>tools\<close> and \<open>coolant\<close> exist only on mills and lathes and the
  source tests them for truthiness, so they are options. The other type-specific fields
  (\<open>toolChangeCount\<close>, \<open>toolWear\<close>, the press-brake and the laser fields) are read only
  behind a test of \<open>type\<close>; on a machine of another type, where the source leaves them
  undefined, the model holds 0.
\<close>

subsection \<open>JavaScript primitives\<close>

definition draw :: "machine \<Rightarrow> real" where
  "draw s = rand s (draws s)"

definition consume :: "machine \<Rightarrow> machine" where
  "consume s = s\<lparr>draws := draws s + 1\<rparr>"

text \<open>\<open>cond && Math.random() < p\<close>: the draw is made only when \<open>cond\<close> holds.\<close>

definition gate :: "bool \<Rightarrow> real \<Rightarrow> machine \<Rightarrow> bool \<times> machine" where
  "gate cond p s = (if cond then (draw s < p, consume s) else (False, s))"

definition now :: "machine \<Rightarrow> nat" where
  "now s = clock s (reads s)"

definition tick_clock :: "machine \<Rightarrow> machine" where
  "tick_clock s = s\<lparr>reads := reads s + 1\<rparr>"

text \<open>Truthiness of a string-or-null value: \<open>null\<close> and the empty string are falsy.\<close>

definition truthy :: "string option \<Rightarrow> bool" where
  "truthy v = (case v of None \<Rightarrow> False | Some m \<Rightarrow> m \<noteq> [])"

text \<open>\<open>a || d\<close> on an optional number: absent and 0 give the default.\<close>

definition or_default :: "'a::zero option \<Rightarrow> 'a \<Rightarrow> 'a" where
  "or_default v d = (case v of None \<Rightarrow> d | Some a \<Rightarrow> if a = 0 then d else a)"

definition Math_floor :: "real \<Rightarrow> int" where
  "Math_floor x = \<lfloor>x\<rfloor>"

text \<open>\<open>Math.round\<close> rounds to the nearest integer, a half towards plus infinity.\<close>

definition Math_round :: "real \<Rightarrow> int" where
  "Math_round x = \<lfloor>x + 1 / 2\<rfloor>"

text \<open>
  \<open>parseFloat(x.toFixed(d))\<close>: the nearest multiple of \<open>10^-d\<close>, a half away from zero
  (\<open>toFixed\<close> rounds the magnitude and puts the sign back).
\<close>

definition toFixed :: "nat \<Rightarrow> real \<Rightarrow> real" where
  "toFixed d x =
     (if x < 0 then - (of_int \<lfloor>(- x) * 10 ^ d + 1 / 2\<rfloor> / 10 ^ d)
      else of_int \<lfloor>x * 10 ^ d + 1 / 2\<rfloor> / 10 ^ d)"

text \<open>The remainder operator \<open>%\<close>: the quotient is truncated towards zero.\<close>

definition js_rem :: "real \<Rightarrow> real \<Rightarrow> real" where
  "js_rem a b = a - b * of_int (if a / b < 0 then \<lceil>a / b\<rceil> else \<lfloor>a / b\<rfloor>)"

text \<open>\<open>xs[i]\<close> is \<open>undefined\<close> out of range.\<close>

definition js_index :: "'a list \<Rightarrow> int \<Rightarrow> 'a option" where
  "js_index xs i = (if 0 \<le> i \<and> nat i < length xs then Some (xs ! nat i) else None)"

text \<open>\<open>xs.slice(-n)\<close>: the last \<open>n\<close> elements, all of them when there are fewer.\<close>

definition slice_last :: "nat \<Rightarrow> 'a list \<Rightarrow> 'a list" where
  "slice_last n xs = drop (length xs - n) xs"

text \<open>A number inside a template literal: its decimal digits.\<close>

fun show_nat :: "nat \<Rightarrow> string" where
  "show_nat n =
     (if n < 10 then [''0123456789'' ! n]
      else show_nat (n div 10) @ [''0123456789'' ! (n mod 10)])"

definition show_int :: "int \<Rightarrow> string" where
  "show_int i = (if i < 0 then ''-'' @ show_nat (nat (- i)) else show_nat (nat i))"

subsection \<open>Construction\<close>

definition toolTypes :: "string list" where
  "toolTypes = [''DRILL'', ''END_MILL'', ''FACE_MILL'', ''REAMER'', ''TAP'', ''BORING_BAR'']"

definition coatings :: "string list" where
  "coatings = [''TiN'', ''TiCN'', ''AlTiN'', ''Uncoated'']"

text \<open>
  One iteration of the loop of \<open>_initializeTools\<close>: tool \<open>i\<close> is built from six draws, the
  first of them at position \<open>d\<close>. The source keeps \<open>diameter\<close> and \<open>length\<close> as the strings
  \<open>toFixed(2)\<close> returns; the model keeps the numbers they denote.
\<close>

definition make_tool :: "(nat \<Rightarrow> real) \<Rightarrow> nat \<Rightarrow> nat \<Rightarrow> tool" where
  "make_tool rnd d i =
     \<lparr>number = i,
      type_t = js_index toolTypes (Math_floor (rnd d * 6)),
      diameter = toFixed 2 (rnd (d + 1) * 20 + 2),
      length_t = toFixed 2 (rnd (d + 2) * 100 + 50),
      currentLife = 100 - rnd (d + 3) * 80,
      maxLife = 100,
      flutes = Math_floor (rnd (d + 4) * 4) + 2,
      coating = js_index coatings (Math_floor (rnd (d + 5) * 4)),
      description = ''Tool '' @ show_nat i,
      inUse = False,
      totalCuts = 0\<rparr>"

definition initializeTools :: "machine_type \<Rightarrow> specs_t \<Rightarrow> (nat \<Rightarrow> real) \<Rightarrow> nat \<Rightarrow> tool list" where
  "initializeTools ty sp rnd d =
     (let count = (if ty = CNC_MILL then toolCapacity sp else 12)
      in map (\<lambda>i. make_tool rnd (d + 6 * (i - 1)) i) [1..<count + 1])"

definition default_axisLimits :: "(real \<times> real) xyz" where
  "default_axisLimits = \<lparr>X = (0, 762), Y = (0, 406), Z = (0, 508)\<rparr>"

definition is_cnc :: "machine_type \<Rightarrow> bool" where
  "is_cnc ty = (ty = CNC_MILL \<or> ty = LATHE)"

definition init ::
  "string \<Rightarrow> string \<Rightarrow> string \<Rightarrow> machine_type \<Rightarrow> spec_args \<Rightarrow> (nat \<Rightarrow> real) \<Rightarrow> (nat \<Rightarrow> nat) \<Rightarrow> machine"
where
  "init i n m ty args rnd clk =
     (let lim = (case axisLimits_arg args of None \<Rightarrow> default_axisLimits | Some l \<Rightarrow> l);
          sp = \<lparr>axisLimits = lim,
                spindlePower = or_default (spindlePower_arg args) 30,
                maxRPM = or_default (maxRPM_arg args) 8100,
                rapidTraverse = or_default (rapidTraverse_arg args) 1000,
                toolCapacity = or_default (toolCapacity_arg args) 24\<rparr>;
          ts = initializeTools ty sp rnd 1
      in \<lparr>id_m = i, name = n, model = m, type_m = ty, specs = sp,
          power_m = True, execution = EX_IDLE, cyclePhase = PH_IDLE,
          timeInPhase = 0, cycleTimeTarget = 20 + rnd 0 * 25,
          alarm = None, alarmCode = None, alarmHistory = [], warnings = [],
          spindleSpeed = 0, targetSpindleSpeed = 0, spindleLoad = 0, spindleTemp = 25,
          spindleHours = 0, spindleOrientation = 0,
          feedRate = 0, targetFeed = 0, rapidRate = 0,
          axisPositions = \<lparr>X = (fst (X lim) + snd (X lim)) / 2,
                            Y = (fst (Y lim) + snd (Y lim)) / 2,
                            Z = snd (Z lim)\<rparr>,
          servoLoad = \<lparr>X = 0, Y = 0, Z = 0\<rparr>,
          servoFollowingError = \<lparr>X = 0, Y = 0, Z = 0\<rparr>,
          servoTemp = \<lparr>X = 25, Y = 25, Z = 25\<rparr>,
          partCount = 0, totalCycles = 0, machineOnHours = 0, productionRate = 0,
          batteryVoltage = 3.6, temperature = 72, vibration = 0, currentAmps = 7,
          oilPressure = 50, oilLevel = 100,
          currentTool = (if is_cnc ty then Some 1 else None),
          tools = (if is_cnc ty then Some ts else None),
          toolChangeCount = 0, toolWear = 0,
          coolant = (if is_cnc ty
                     then Some \<lparr>level = 100, pressure = 50, temperature_c = 72, flow = 0\<rparr>
                     else None),
          tonnage = 0,
          maxTonnage = (if ty = PRESS_BRAKE then or_default (maxTonnage_arg args) 200 else 0),
          ramPosition = 0, backGauge = 0, bendAngle = 0,
          laserPower = 0,
          maxLaserPower = (if ty = LASER then or_default (maxLaserPower_arg args) 6000 else 0),
          gasPressure = (if ty = LASER then 240 else 0),
          resonatorTemp = (if ty = LASER then 26 else 0),
          cutSpeed = 0,
          material = None, programRunning = None,
          timestamp = clk 0,
          rand = rnd,
          draws = (if is_cnc ty then 1 + 6 * length ts else 1),
          clock = clk, reads = 1\<rparr>)"

subsection \<open>Alarms\<close>

definition setAlarm :: "int option \<Rightarrow> string \<Rightarrow> machine \<Rightarrow> machine" where
  "setAlarm c msg s =
     (let e = \<lparr>code = c, message = msg, timestamp_a = now s,
                cyclePhase_a = cyclePhase s, spindleLoad_a = spindleLoad s, cleared = False\<rparr>;
          h = alarmHistory s @ [e]
      in (tick_clock s)\<lparr>alarm := Some msg, alarmCode := c,
            alarmHistory := (if length h > 20 then slice_last 20 h else h)\<rparr>)"

text \<open>\<open>_clearAlarm\<close>; the public \<open>clearAlarm\<close> below only calls it.\<close>

definition priv_clearAlarm :: "machine \<Rightarrow> machine" where
  "priv_clearAlarm s =
     (let h = alarmHistory s
      in s\<lparr>alarmHistory :=
              (if length h > 0 then h[length h - 1 := (h ! (length h - 1))\<lparr>cleared := True\<rparr>]
               else h),
           alarm := None, alarmCode := None, execution := EX_IDLE\<rparr>)"

text \<open>
  \<open>this.tools && this.currentTool\<close> followed by \<open>this.tools[this.currentTool - 1]\<close>: the
  position of the active tool in the list, when there is one.
\<close>

definition active_tool :: "machine \<Rightarrow> (tool list \<times> nat) option" where
  "active_tool s =
     (case tools s of None \<Rightarrow> None
      | Some ts \<Rightarrow>
          (case currentTool s of None \<Rightarrow> None
           | Some n \<Rightarrow> if n \<noteq> 0 \<and> n - 1 < length ts then Some (ts, n - 1) else None))"

text \<open>
  One link of the chain of \<open>_checkAlarms\<close>:
  \<open>if (cond && Math.random() < p) this._setAlarm(c, msg); else rest\<close>.
\<close>

definition alarm_if :: "bool \<Rightarrow> real \<Rightarrow> int option \<Rightarrow> string \<Rightarrow> (machine \<Rightarrow> machine) \<Rightarrow> machine \<Rightarrow> machine" where
  "alarm_if cond p c msg rest s =
     (let (b, s1) = gate cond p s in if b then setAlarm c msg s1 else rest s1)"

text \<open>
  The last two links for mills and lathes. The link \<open>else if (this.tools && this.currentTool)\<close>
  is taken whenever the machine has tools and a current tool, whatever the tool's life, so the
  vibration test after it runs only on a machine without them.
\<close>

definition checkAlarmsTool :: "machine \<Rightarrow> machine" where
  "checkAlarmsTool s =
     (if tools s \<noteq> None \<and> currentTool s \<noteq> None \<and> currentTool s \<noteq> Some 0 then
        (case active_tool s of None \<Rightarrow> s
         | Some (ts, k) \<Rightarrow> alarm_if (currentLife (ts ! k) < 5) 0.15 None ''TOOL_LIFE_EXPIRED'' (\<lambda>t. t) s)
      else alarm_if (vibration s > 5.0) 0.08 None ''HIGH_VIBRATION'' (\<lambda>t. t) s)"

text \<open>The chain of \<open>else if\<close> of \<open>_checkAlarms\<close> for mills and lathes.\<close>

definition checkAlarmsCNC :: "machine \<Rightarrow> machine" where
  "checkAlarmsCNC s =
     alarm_if (X (servoFollowingError s) > 0.005) 0.02 (Some 103) ''X AXIS FOLLOWING ERROR''
    (alarm_if (Y (servoFollowingError s) > 0.005) 0.02 (Some 104) ''Y AXIS FOLLOWING ERROR''
    (alarm_if (Z (servoFollowingError s) > 0.005) 0.02 (Some 105) ''Z AXIS FOLLOWING ERROR''
    (alarm_if (batteryVoltage s < 3.0) 0.05 (Some 9100) ''LOW BATTERY''
    (alarm_if (case coolant s of None \<Rightarrow> False | Some c \<Rightarrow> level c < 10) 0.1 (Some 115) ''COOLANT PUMP FAULT''
    (alarm_if (spindleLoad s > 95) 0.05 None ''SPINDLE_OVERLOAD''
    (alarm_if (spindleTemp s > 85) 0.08 (Some 200) ''SPINDLE OVER TEMP''
     checkAlarmsTool)))))) s"

definition checkAlarmsPress :: "machine \<Rightarrow> machine" where
  "checkAlarmsPress s =
     alarm_if (tonnage s > maxTonnage s * 0.9) 0.1 None ''OVER_TONNAGE'' (\<lambda>t. t) s"

text \<open>The laser's two tests are separate \<open>if\<close> statements, not a chain.\<close>

definition checkAlarmsLaser :: "machine \<Rightarrow> machine" where
  "checkAlarmsLaser s0 =
     (let s1 = alarm_if (spindleLoad s0 > 95) 0.1 None ''LASER_POWER_FAULT'' (\<lambda>t. t) s0
      in alarm_if (resonatorTemp s1 > 85) 0.08 None ''RESONATOR_OVERHEAT'' (\<lambda>t. t) s1)"

definition checkAlarms :: "machine \<Rightarrow> machine" where
  "checkAlarms s0 =
     (let s1 = (if is_cnc (type_m s0) then checkAlarmsCNC s0 else s0);
          s2 = (if type_m s1 = PRESS_BRAKE then checkAlarmsPress s1 else s1)
      in if type_m s2 = LASER then checkAlarmsLaser s2 else s2)"

subsection \<open>Warnings\<close>

definition battery_warning :: warning where
  "battery_warning =
     \<lparr>type_w = ''BATTERY_LOW'', severity = ''warning'', message_w = ''Battery voltage low''\<rparr>"

definition coolant_warning :: warning where
  "coolant_warning =
     \<lparr>type_w = ''COOLANT_LOW'', severity = ''warning'', message_w = ''Coolant level below 20%''\<rparr>"

definition tool_warning :: "nat \<Rightarrow> warning" where
  "tool_warning n =
     \<lparr>type_w = ''TOOL_WEAR'', severity = ''warning'',
      message_w = ''Tool '' @ show_nat n @ '' life below 15%''\<rparr>"

definition temp_warning :: warning where
  "temp_warning =
     \<lparr>type_w = ''HIGH_TEMP'', severity = ''warning'', message_w = ''Spindle temperature elevated''\<rparr>"

definition load_warning :: warning where
  "load_warning =
     \<lparr>type_w = ''HIGH_LOAD'', severity = ''caution'', message_w = ''Spindle load above 85%''\<rparr>"

text \<open>The list \<open>_updateWarnings\<close> builds: it starts empty and each test pushes one entry.\<close>

definition current_warnings :: "machine \<Rightarrow> warning list" where
  "current_warnings s =
     (if batteryVoltage s < 3.2 then [battery_warning] else [])
     @ (case coolant s of None \<Rightarrow> []
        | Some c \<Rightarrow> if level c < 20 then [coolant_warning] else [])
     @ (case active_tool s of None \<Rightarrow> []
        | Some (ts, k) \<Rightarrow> if currentLife (ts ! k) < 15 then [tool_warning (k + 1)] else [])
     @ (if spindleTemp s > 75 then [temp_warning] else [])
     @ (if spindleLoad s > 85 then [load_warning] else [])"

definition updateWarnings :: "machine \<Rightarrow> machine" where
  "updateWarnings s = s\<lparr>warnings := current_warnings s\<rparr>"

subsection \<open>The cycle of mills and lathes\<close>

definition startNewCycle :: "machine \<Rightarrow> machine" where
  "startNewCycle s0 =
     (let r1 = draw s0; s1 = consume s0;
          r2 = draw s1; s2 = consume s1;
          r3 = draw s2; s3 = consume s2;
          s4 = s3\<lparr>cyclePhase := PH_SPINDLE_RAMP, execution := EX_RUNNING, timeInPhase := 0,
                 cycleTimeTarget := 20 + r1 * 25,
                 targetSpindleSpeed := 3000 + r2 * (maxRPM (specs s3) - 3000),
                 targetFeed := 300 + r3 * 1500\<rparr>
      in if \<not> truthy (programRunning s4)
         then (consume s4)\<lparr>programRunning :=
                 Some (''O'' @ show_int (Math_floor (draw s4 * 9000 + 1000)))\<rparr>
         else s4)"

definition phaseIdle :: "real \<Rightarrow> machine \<Rightarrow> machine" where
  "phaseIdle dtSec s0 =
     (let s1 = s0\<lparr>execution := EX_IDLE,
                 spindleSpeed := max 0 (spindleSpeed s0 - 500 * dtSec),
                 feedRate := max 0 (feedRate s0 - 500 * dtSec),
                 spindleLoad := max 0 (spindleLoad s0 - 5 * dtSec)\<rparr>;
          s2 = (case coolant s1 of None \<Rightarrow> s1
                | Some c \<Rightarrow> s1\<lparr>coolant := Some (c\<lparr>level := min 100 (level c + 0.1), flow := 0\<rparr>)\<rparr>);
          r = draw s2; s3 = consume s2
      in if r < 0.05 then startNewCycle s3 else s3)"

text \<open>
  In \<open>_phaseSpindleRamp\<close> the load divides by \<open>targetSpindleSpeed\<close>. Where the target is 0
  the source computes with \<open>Infinity\<close> or \<open>NaN\<close>, which the reals do not have (HOL's
  division gives 0 there); a target set by \<open>_startNewCycle\<close> is not 0 for \<open>maxRPM > 0\<close>.
\<close>

definition phaseSpindleRamp :: "real \<Rightarrow> machine \<Rightarrow> machine" where
  "phaseSpindleRamp dtSec s0 =
     (let s1 = s0\<lparr>execution := EX_RUNNING\<rparr>;
          ramp = 350 * dtSec;
          s2 = (if spindleSpeed s1 < targetSpindleSpeed s1
                then (let s' = s1\<lparr>spindleSpeed := spindleSpeed s1 + ramp\<rparr>
                      in if spindleSpeed s' \<ge> targetSpindleSpeed s'
                         then s'\<lparr>spindleSpeed := targetSpindleSpeed s',
                                 cyclePhase := PH_RAPID, timeInPhase := 0\<rparr>
                         else s')
                else s1)
      in s2\<lparr>spindleLoad := min 20 ((spindleSpeed s2 / targetSpindleSpeed s2) * 15),
            spindleOrientation :=
              js_rem (spindleOrientation s2 + spindleSpeed s2 * dtSec / 60) 360\<rparr>)"

definition phaseRapid :: "real \<Rightarrow> machine \<Rightarrow> machine" where
  "phaseRapid dtSec s0 =
     (let limits = axisLimits (specs s0);
          r1 = draw s0; s1 = consume s0;
          r2 = draw s1; s2 = consume s1;
          r3 = draw s2; s3 = consume s2;
          s4 = s3\<lparr>execution := EX_RUNNING,
                 axisPositions :=
                   \<lparr>X = fst (X limits) + r1 * (snd (X limits) - fst (X limits)),
                    Y = fst (Y limits) + r2 * (snd (Y limits) - fst (Y limits)),
                    Z = snd (Z limits)\<rparr>,
                 rapidRate := rapidTraverse (specs s3),
                 feedRate := 0,
                 spindleLoad := 5 + r3 * 5\<rparr>
      in if timeInPhase s4 \<ge> 3.0 then s4\<lparr>cyclePhase := PH_CUTTING, timeInPhase := 0\<rparr> else s4)"

text \<open>\<open>_phaseCutting\<close>, one definition for each commented block of the source, in its order.\<close>

definition cutting_feed_ramp :: "real \<Rightarrow> machine \<Rightarrow> machine" where
  "cutting_feed_ramp dtSec s =
     (let ramp = 200 * dtSec
      in if feedRate s < targetFeed s
         then (let f = feedRate s + ramp
               in s\<lparr>feedRate := (if f > targetFeed s then targetFeed s else f)\<rparr>)
         else s)"

definition cutting_z_descent :: "real \<Rightarrow> machine \<Rightarrow> machine" where
  "cutting_z_descent dtSec s =
     (let limits = axisLimits (specs s);
          z = Z (axisPositions s) - 1.0 * dtSec * (feedRate s / max (targetFeed s) 1)
      in s\<lparr>axisPositions :=
             (axisPositions s)\<lparr>Z := (if z < fst (Z limits) + 5 then fst (Z limits) + 5 else z)\<rparr>\<rparr>)"

definition cutting_spindle_load :: "machine \<Rightarrow> machine" where
  "cutting_spindle_load s =
     (let baseLoad = (feedRate s / 1800.0) * 35.0;
          wearLoad = toolWear s * 50.0;
          vibLoad = vibration s * 8.0;
          noise = draw s * 4.5 - 2.0
      in (consume s)\<lparr>spindleLoad := max 0 (min 100 (baseLoad + wearLoad + vibLoad + noise))\<rparr>)"

definition cutting_tool_wear :: "machine \<Rightarrow> machine" where
  "cutting_tool_wear s =
     (let w = toolWear s + spindleLoad s / 250000.0;
          w' = (if w > 1.0 then 1.0 else w)
      in (consume s)\<lparr>toolWear := w', vibration := w' * 3.0 + draw s * 0.4\<rparr>)"

definition cutting_spindle_hours :: "real \<Rightarrow> machine \<Rightarrow> machine" where
  "cutting_spindle_hours dtSec s =
     (if spindleSpeed s > 300 then s\<lparr>spindleHours := spindleHours s + dtSec / 3600.0\<rparr> else s)"

definition cutting_current_tool :: "machine \<Rightarrow> machine" where
  "cutting_current_tool s =
     (case active_tool s of None \<Rightarrow> s
      | Some (ts, k) \<Rightarrow>
          (consume s)\<lparr>tools := Some (ts[k := (ts ! k)
              \<lparr>currentLife := max 0 (currentLife (ts ! k) - draw s * 0.02),
               inUse := True,
               totalCuts := totalCuts (ts ! k) + 1\<rparr>])\<rparr>)"

definition cutting_coolant :: "machine \<Rightarrow> machine" where
  "cutting_coolant s =
     (case coolant s of None \<Rightarrow> s
      | Some c \<Rightarrow>
          s\<lparr>coolant := Some \<lparr>level = max 0 (level c - rand s (draws s) * 0.08),
                              pressure = 45 + rand s (draws s + 1) * 15,
                              temperature_c = 72 + rand s (draws s + 2) * 15,
                              flow = 5 + rand s (draws s + 3) * 3\<rparr>,
            draws := draws s + 4\<rparr>)"

definition cutting_servo :: "machine \<Rightarrow> machine" where
  "cutting_servo s =
     s\<lparr>servoLoad := \<lparr>X = 20 + rand s (draws s) * 30,
                      Y = 20 + rand s (draws s + 1) * 30,
                      Z = 30 + spindleLoad s * 0.5\<rparr>,
       servoFollowingError := \<lparr>X = rand s (draws s + 2) * 0.002,
                                Y = rand s (draws s + 3) * 0.002,
                                Z = rand s (draws s + 4) * 0.003\<rparr>,
       draws := draws s + 5\<rparr>"

definition cutting_completion :: "machine \<Rightarrow> machine" where
  "cutting_completion s =
     (if timeInPhase s \<ge> cycleTimeTarget s * 0.6
      then s\<lparr>cyclePhase := PH_RETRACT, timeInPhase := 0\<rparr> else s)"

definition phaseCutting :: "real \<Rightarrow> machine \<Rightarrow> machine" where
  "phaseCutting dtSec s =
     cutting_completion (cutting_servo (cutting_coolant (cutting_current_tool
       (cutting_spindle_hours dtSec (cutting_tool_wear (cutting_spindle_load
         (cutting_z_descent dtSec (cutting_feed_ramp dtSec (s\<lparr>execution := EX_RUNNING\<rparr>)))))))))"

definition phaseRetract :: "real \<Rightarrow> machine \<Rightarrow> machine" where
  "phaseRetract dtSec s0 =
     (let limits = axisLimits (specs s0);
          s1 = s0\<lparr>execution := EX_RUNNING,
                 axisPositions := (axisPositions s0)\<lparr>Z := Z (axisPositions s0) + 4.0 * dtSec\<rparr>\<rparr>;
          s2 = (if Z (axisPositions s1) \<ge> snd (Z limits) - 10
                then s1\<lparr>axisPositions := (axisPositions s1)\<lparr>Z := snd (Z limits) - 10\<rparr>,
                        cyclePhase := PH_DWELL, timeInPhase := 0\<rparr>
                else s1)
      in s2\<lparr>spindleLoad := max 5 (spindleLoad s2 - 10 * dtSec),
            feedRate := max 0 (feedRate s2 - 300 * dtSec)\<rparr>)"

definition phaseDwell :: "real \<Rightarrow> machine \<Rightarrow> machine" where
  "phaseDwell dtSec s0 =
     (let s1 = s0\<lparr>execution := EX_RUNNING, feedRate := 0,
                 spindleLoad := max 0 (spindleLoad s0 - 5 * dtSec)\<rparr>
      in if timeInPhase s1 \<ge> 2.0 then s1\<lparr>cyclePhase := PH_FINISH, timeInPhase := 0\<rparr> else s1)"

definition phaseFinish :: "real \<Rightarrow> machine \<Rightarrow> machine" where
  "phaseFinish dtSec s0 =
     (let s1 = s0\<lparr>execution := EX_RUNNING,
                 partCount := partCount s0 + 1,
                 totalCycles := totalCycles s0 + 1,
                 spindleLoad := spindleLoad s0 * 0.7,
                 feedRate := 0\<rparr>;
          s2 = (case active_tool s1 of None \<Rightarrow> s1
                | Some (ts, k) \<Rightarrow> s1\<lparr>tools := Some (ts[k := (ts ! k)\<lparr>inUse := False\<rparr>])\<rparr>);
          s3 = (if machineOnHours s2 > 0
                then s2\<lparr>productionRate := Math_round (real (partCount s2) / machineOnHours s2)\<rparr>
                else s2)
      in s3\<lparr>cyclePhase := PH_IDLE, timeInPhase := 0\<rparr>)"

definition updateCNCCycle :: "real \<Rightarrow> machine \<Rightarrow> machine" where
  "updateCNCCycle dtSec s =
     (case cyclePhase s of
        PH_IDLE \<Rightarrow> phaseIdle dtSec s
      | PH_SPINDLE_RAMP \<Rightarrow> phaseSpindleRamp dtSec s
      | PH_RAPID \<Rightarrow> phaseRapid dtSec s
      | PH_CUTTING \<Rightarrow> phaseCutting dtSec s
      | PH_RETRACT \<Rightarrow> phaseRetract dtSec s
      | PH_DWELL \<Rightarrow> phaseDwell dtSec s
      | PH_FINISH \<Rightarrow> phaseFinish dtSec s
      | PH_RUNNING \<Rightarrow> s)"

subsection \<open>The press-brake cycle\<close>

text \<open>\<open>_updatePressCycle\<close>: the start of a cycle, the running block and the idle block.\<close>

definition press_start :: "machine \<Rightarrow> machine" where
  "press_start s =
     (if cyclePhase s = PH_IDLE
      then (if draw s < 0.05
            then s\<lparr>cyclePhase := PH_RUNNING, execution := EX_RUNNING, timeInPhase := 0,
                   bendAngle := 45 + rand s (draws s + 1) * 90, draws := draws s + 2\<rparr>
            else consume s)
      else s)"

definition press_ram :: "real \<Rightarrow> machine \<Rightarrow> machine" where
  "press_ram dtSec s =
     (let ram = min 100 (ramPosition s + 20 * dtSec);
          ton = (ram / 100) * (maxTonnage s * 0.8)
      in s\<lparr>execution := EX_RUNNING, ramPosition := ram, tonnage := ton,
            spindleLoad := (ton / maxTonnage s) * 100,
            servoLoad := (servoLoad s)\<lparr>Y := ton / maxTonnage s * 80\<rparr>\<rparr>)"

definition press_completion :: "machine \<Rightarrow> machine" where
  "press_completion s =
     (if timeInPhase s \<ge> 5.0
      then s\<lparr>partCount := partCount s + 1, totalCycles := totalCycles s + 1,
              ramPosition := 0, tonnage := 0, cyclePhase := PH_IDLE,
              execution := EX_IDLE, timeInPhase := 0\<rparr>
      else s)"

definition press_idle :: "machine \<Rightarrow> machine" where
  "press_idle s = s\<lparr>execution := EX_IDLE, spindleLoad := 0, tonnage := 0\<rparr>"

definition updatePressCycle :: "real \<Rightarrow> machine \<Rightarrow> machine" where
  "updatePressCycle dtSec s0 =
     (let s1 = press_start s0
      in if cyclePhase s1 = PH_RUNNING then press_completion (press_ram dtSec s1)
         else press_idle s1)"

subsection \<open>The laser cycle\<close>

text \<open>\<open>_updateLaserCycle\<close>, one definition for each block of the source, in its order.\<close>

definition laser_start :: "machine \<Rightarrow> machine" where
  "laser_start s =
     (if cyclePhase s = PH_IDLE
      then (if draw s < 0.07
            then s\<lparr>cyclePhase := PH_RUNNING, execution := EX_RUNNING, timeInPhase := 0,
                   laserPower := 2000 + rand s (draws s + 1) * (maxLaserPower s - 2000),
                   targetFeed := 800 + rand s (draws s + 2) * 2200,
                   draws := draws s + 3\<rparr>
            else consume s)
      else s)"

definition laser_power_ramp :: "machine \<Rightarrow> machine" where
  "laser_power_ramp s =
     s\<lparr>execution := EX_RUNNING, spindleLoad := (laserPower s / maxLaserPower s) * 100\<rparr>"

definition laser_feed_ramp :: "real \<Rightarrow> machine \<Rightarrow> machine" where
  "laser_feed_ramp dtSec s =
     (let c = (if cutSpeed s < targetFeed s
               then (let c' = cutSpeed s + 300 * dtSec
                     in if c' > targetFeed s then targetFeed s else c')
               else cutSpeed s)
      in s\<lparr>cutSpeed := c, feedRate := c\<rparr>)"

definition laser_xy_movement :: "machine \<Rightarrow> machine" where
  "laser_xy_movement s =
     s\<lparr>axisPositions :=
         (axisPositions s)\<lparr>X := X (axisPositions s) + (rand s (draws s) * 10 - 5),
                            Y := Y (axisPositions s) + (rand s (draws s + 1) * 10 - 5)\<rparr>,
       draws := draws s + 2\<rparr>"

definition laser_temperature :: "machine \<Rightarrow> machine" where
  "laser_temperature s =
     s\<lparr>resonatorTemp := resonatorTemp s + (laserPower s / maxLaserPower s) * 0.4\<rparr>"

definition laser_completion :: "machine \<Rightarrow> machine" where
  "laser_completion s =
     (if timeInPhase s \<ge> 8.0
      then s\<lparr>partCount := partCount s + 1, totalCycles := totalCycles s + 1,
              cyclePhase := PH_IDLE, execution := EX_IDLE, timeInPhase := 0,
              cutSpeed := 0, feedRate := 0\<rparr>
      else s)"

definition laser_idle :: "machine \<Rightarrow> machine" where
  "laser_idle s =
     s\<lparr>execution := EX_IDLE, spindleLoad := 0, cutSpeed := 0, feedRate := 0,
       resonatorTemp := max 26 (resonatorTemp s - 0.05)\<rparr>"

definition updateLaserCycle :: "real \<Rightarrow> machine \<Rightarrow> machine" where
  "updateLaserCycle dtSec s0 =
     (let s1 = laser_start s0
      in if cyclePhase s1 = PH_RUNNING
         then laser_completion (laser_temperature (laser_xy_movement
                (laser_feed_ramp dtSec (laser_power_ramp s1))))
         else laser_idle s1)"

subsection \<open>Health sensors\<close>

text \<open>\<open>_updateHealthSensors\<close>, one definition for each commented block of the source.\<close>

definition health_temperature :: "machine \<Rightarrow> machine" where
  "health_temperature s =
     (if execution s = EX_RUNNING
      then s\<lparr>temperature := min 120 (temperature s + (spindleLoad s / 100.0) * 0.3),
             spindleTemp := min 95 (spindleTemp s + (spindleLoad s / 100.0) * 0.15),
             currentAmps := 7 + (spindleLoad s / 100.0) * 8\<rparr>
      else s\<lparr>temperature := max 72 (temperature s - 0.2),
             spindleTemp := max 25 (spindleTemp s - 0.03),
             currentAmps := max 7 (currentAmps s - 0.5)\<rparr>)"

definition health_battery :: "real \<Rightarrow> machine \<Rightarrow> machine" where
  "health_battery dtSec s =
     (let b = batteryVoltage s - 0.0001 * dtSec
      in s\<lparr>batteryVoltage := (if b < 2.8 then 2.8 else b)\<rparr>)"

definition health_oil :: "machine \<Rightarrow> machine" where
  "health_oil s =
     (consume s)\<lparr>oilPressure := 45 + draw s * 10, oilLevel := max 20 (oilLevel s - 0.001)\<rparr>"

definition health_servo_temp :: "machine \<Rightarrow> machine" where
  "health_servo_temp s =
     (let st = servoTemp s
      in if execution s = EX_RUNNING
         then s\<lparr>servoTemp := \<lparr>X = min 65 (X st + 0.1), Y = min 65 (Y st + 0.1),
                              Z = min 65 (Z st + 0.1)\<rparr>\<rparr>
         else s\<lparr>servoTemp := \<lparr>X = max 25 (X st - 0.05), Y = max 25 (Y st - 0.05),
                              Z = max 25 (Z st - 0.05)\<rparr>\<rparr>)"

definition updateHealthSensors :: "real \<Rightarrow> machine \<Rightarrow> machine" where
  "updateHealthSensors dtSec s =
     health_servo_temp (health_oil (health_battery dtSec (health_temperature s)))"

subsection \<open>The main update loop and the manual controls\<close>

text \<open>The dispatch of \<open>update\<close> on the machine type.\<close>

definition cycle_dispatch :: "real \<Rightarrow> machine \<Rightarrow> machine" where
  "cycle_dispatch dtSec s =
     (if is_cnc (type_m s) then updateCNCCycle dtSec s
      else if type_m s = PRESS_BRAKE then updatePressCycle dtSec s
      else if type_m s = LASER then updateLaserCycle dtSec s
      else s)"

definition update :: "real \<Rightarrow> machine \<Rightarrow> machine" where
  "update dtSec s0 =
     (let s1 = (tick_clock s0)\<lparr>timestamp := now s0\<rparr> in
      if \<not> power_m s1
      then s1\<lparr>execution := EX_STOPPED, cyclePhase := PH_IDLE,
              spindleSpeed := 0, spindleLoad := 0, feedRate := 0\<rparr>
      else
        let s2 = s1\<lparr>machineOnHours := machineOnHours s1 + dtSec / 3600.0,
                    timeInPhase := timeInPhase s1 + dtSec\<rparr> in
        if truthy (alarm s2)
        then (let s3 = s2\<lparr>execution := EX_ALARM, cyclePhase := PH_IDLE,
                          spindleSpeed := max 0 (spindleSpeed s2 - 500 * dtSec),
                          feedRate := 0\<rparr>
              in if draw s3 < 0.02 then priv_clearAlarm (consume s3) else consume s3)
        else updateWarnings (checkAlarms (updateHealthSensors dtSec (cycle_dispatch dtSec s2))))"

definition setPower :: "bool \<Rightarrow> machine \<Rightarrow> machine" where
  "setPower state s =
     (let s1 = s\<lparr>power_m := state\<rparr>
      in if \<not> state then s1\<lparr>execution := EX_STOPPED, cyclePhase := PH_IDLE\<rparr> else s1)"

definition injectAlarm :: "int option \<Rightarrow> string \<Rightarrow> machine \<Rightarrow> machine" where
  "injectAlarm c msg s = setAlarm c msg s"

definition clearAlarm :: "machine \<Rightarrow> machine" where
  "clearAlarm s = priv_clearAlarm s"

subsection \<open>The snapshot serializer\<close>

text \<open>
  The object \<open>toJSON\<close> returns. Its keys carry the names of the machine's fields; here each
  has the suffix \<open>_j\<close>. The three groups of type-specific keys are optional blocks, present
  exactly when the source assigns the keys. The ISO string of the timestamp is kept as the
  instant it denotes.
\<close>

record cnc_json =
  currentTool_j :: "nat option"
  tools_j :: "tool list option"
  toolChangeCount_j :: nat
  toolWear_j :: real
  coolant_j :: "coolant_t option"

record press_json =
  tonnage_j :: int
  maxTonnage_j :: real
  ramPosition_j :: int
  backGauge_j :: real
  bendAngle_j :: int

record laser_json =
  laserPower_j :: int
  maxLaserPower_j :: real
  gasPressure_j :: int
  resonatorTemp_j :: real
  cutSpeed_j :: int

record snapshot =
  id_j :: string
  name_j :: string
  model_j :: string
  type_j :: machine_type
  specs_j :: specs_t
  power_j :: bool
  execution_j :: execution
  cyclePhase_j :: phase
  alarm_j :: "string option"
  alarmCode_j :: "int option"
  alarmHistory_j :: "alarm_entry list"
  warnings_j :: "warning list"
  spindleSpeed_j :: int
  spindleLoad_j :: real
  spindleTemp_j :: real
  spindleHours_j :: real
  spindleOrientation_j :: int
  feedRate_j :: int
  rapidRate_j :: int
  axisPositions_j :: "real xyz"
  servoLoad_j :: "real xyz"
  servoFollowingError_j :: "real xyz"
  servoTemp_j :: "real xyz"
  partCount_j :: nat
  totalCycles_j :: nat
  machineOnHours_j :: real
  productionRate_j :: int
  batteryVoltage_j :: real
  temperature_j :: int
  vibration_j :: real
  currentAmps_j :: real
  oilPressure_j :: int
  oilLevel_j :: int
  timestamp_j :: nat
  cnc_j :: "cnc_json option"
  press_j :: "press_json option"
  laser_j :: "laser_json option"
  material_j :: "string option"
  programRunning_j :: "string option"

definition toJSON :: "machine \<Rightarrow> snapshot" where
  "toJSON s =
     \<lparr>id_j = id_m s, name_j = name s, model_j = model s, type_j = type_m s, specs_j = specs s,
      power_j = power_m s, execution_j = execution s, cyclePhase_j = cyclePhase s,
      alarm_j = alarm s, alarmCode_j = alarmCode s,
      alarmHistory_j = slice_last 5 (alarmHistory s),
      warnings_j = warnings s,
      spindleSpeed_j = Math_round (spindleSpeed s),
      spindleLoad_j = toFixed 1 (spindleLoad s),
      spindleTemp_j = toFixed 1 (spindleTemp s),
      spindleHours_j = toFixed 3 (spindleHours s),
      spindleOrientation_j = Math_round (spindleOrientation s),
      feedRate_j = Math_round (feedRate s),
      rapidRate_j = Math_round (rapidRate s),
      axisPositions_j = \<lparr>X = toFixed 2 (X (axisPositions s)),
                          Y = toFixed 2 (Y (axisPositions s)),
                          Z = toFixed 2 (Z (axisPositions s))\<rparr>,
      servoLoad_j = servoLoad s,
      servoFollowingError_j = servoFollowingError s,
      servoTemp_j = servoTemp s,
      partCount_j = partCount s, totalCycles_j = totalCycles s,
      machineOnHours_j = toFixed 3 (machineOnHours s),
      productionRate_j = productionRate s,
      batteryVoltage_j = toFixed 2 (batteryVoltage s),
      temperature_j = Math_round (temperature s),
      vibration_j = toFixed 2 (vibration s),
      currentAmps_j = toFixed 1 (currentAmps s),
      oilPressure_j = Math_round (oilPressure s),
      oilLevel_j = Math_round (oilLevel s),
      timestamp_j = timestamp s,
      cnc_j = (if is_cnc (type_m s)
               then Some \<lparr>currentTool_j = currentTool s, tools_j = tools s,
                          toolChangeCount_j = toolChangeCount s,
                          toolWear_j = toFixed 3 (toolWear s), coolant_j = coolant s\<rparr>
               else None),
      press_j = (if type_m s = PRESS_BRAKE
                 then Some \<lparr>tonnage_j = Math_round (tonnage s), maxTonnage_j = maxTonnage s,
                            ramPosition_j = Math_round (ramPosition s), backGauge_j = backGauge s,
                            bendAngle_j = Math_round (bendAngle s)\<rparr>
                 else None),
      laser_j = (if type_m s = LASER
                 then Some \<lparr>laserPower_j = Math_round (laserPower s),
                            maxLaserPower_j = maxLaserPower s,
                            gasPressure_j = Math_round (gasPressure s),
                            resonatorTemp_j = toFixed 1 (resonatorTemp s),
                            cutSpeed_j = Math_round (cutSpeed s)\<rparr>
                 else None),
      material_j = (if truthy (material s) then material s else None),
      programRunning_j = (if truthy (programRunning s) then programRunning s else None)\<rparr>"

text \<open>
  What rounding to \<open>d\<close> decimals and rounding to an integer mean: \<open>y\<close> is a multiple of
  \<open>10^-d\<close> at most half a unit of the last place from \<open>x\<close>; the integer \<open>k\<close> is at most one
  half from \<open>x\<close>.
\<close>

definition rounded_to :: "nat \<Rightarrow> real \<Rightarrow> real \<Rightarrow> bool" where
  "rounded_to d x y \<longleftrightarrow>
     y * 10 ^ d = of_int \<lfloor>y * 10 ^ d\<rfloor> \<and> \<bar>y - x\<bar> * (2 * 10 ^ d) \<le> 1"

definition nearest_int :: "real \<Rightarrow> int \<Rightarrow> bool" where
  "nearest_int x k \<longleftrightarrow> \<bar>of_int k - x\<bar> * 2 \<le> 1"

subsection \<open>The fleet and its driver (server.js)\<close>

definition haas_vf2 :: "(nat \<Rightarrow> real) \<Rightarrow> (nat \<Rightarrow> nat) \<Rightarrow> machine" where
  "haas_vf2 rnd clk =
     (init ''haas_vf2'' ''Haas VF-2'' ''VF-2'' CNC_MILL
        \<lparr>axisLimits_arg = Some \<lparr>X = (0, 762), Y = (0, 406), Z = (0, 508)\<rparr>,
         spindlePower_arg = Some 30, maxRPM_arg = Some 8100, rapidTraverse_arg = Some 1000,
         toolCapacity_arg = Some 24, maxTonnage_arg = None, maxLaserPower_arg = None\<rparr> rnd clk)
     \<lparr>material := Some ''Aluminum 6061'', programRunning := Some ''O1234''\<rparr>"

definition durma_press :: "(nat \<Rightarrow> real) \<Rightarrow> (nat \<Rightarrow> nat) \<Rightarrow> machine" where
  "durma_press rnd clk =
     init ''durma_press'' ''Durma Press Brake'' ''PRESS'' PRESS_BRAKE
        \<lparr>axisLimits_arg = Some \<lparr>X = (0, 100), Y = (0, 2000), Z = (0, 300)\<rparr>,
         spindlePower_arg = None, maxRPM_arg = None, rapidTraverse_arg = None,
         toolCapacity_arg = None, maxTonnage_arg = Some 200, maxLaserPower_arg = None\<rparr> rnd clk"

definition fiber_laser :: "(nat \<Rightarrow> real) \<Rightarrow> (nat \<Rightarrow> nat) \<Rightarrow> machine" where
  "fiber_laser rnd clk =
     init ''fiber_laser'' ''Fiber Laser'' ''LASER'' LASER
        \<lparr>axisLimits_arg = Some \<lparr>X = (0, 1500), Y = (0, 3000), Z = (0, 100)\<rparr>,
         spindlePower_arg = None, maxRPM_arg = None, rapidTraverse_arg = None,
         toolCapacity_arg = None, maxTonnage_arg = None, maxLaserPower_arg = Some 6000\<rparr> rnd clk"

text \<open>
  What reaches a machine after its construction: the tick of the simulation loop and the three
  commands of the REST interface.
\<close>

datatype command = Update real | SetPower bool | InjectAlarm "int option" string | ClearAlarm

fun exec :: "command \<Rightarrow> machine \<Rightarrow> machine" where
  "exec (Update dtSec) s = update dtSec s"
| "exec (SetPower state) s = setPower state s"
| "exec (InjectAlarm c msg) s = injectAlarm c msg s"
| "exec ClearAlarm s = clearAlarm s"

fun run :: "command list \<Rightarrow> machine \<Rightarrow> machine" where
  "run [] s = s"
| "run (c # cs) s = run cs (exec c s)"

text \<open>
  The fibre laser after one tick that starts a cycle at 85 percent of the power range (load 90,
  above the warning threshold of 85); the same machine after the command to switch the power
  off; and, after one tick with the power off, the commands to switch it on again and to inject
  an alarm.
\<close>

definition running_laser :: machine where
  "running_laser = update 2 (fiber_laser (\<lambda>n. if n = 2 then 0.85 else 0) (\<lambda>n. n))"

definition switched_off_laser :: machine where
  "switched_off_laser = setPower False running_laser"

definition alarmed_laser :: machine where
  "alarmed_laser = injectAlarm None ''E'' (setPower True (update 2 switched_off_laser))"

text \<open>
  The VF-2 with one tool in the carousel, at 10 percent of its life, and a warnings list that
  holds a stale battery entry; all draws are stubbed to 0.
\<close>

definition worn_vf2 :: machine where
  "worn_vf2 =
     (haas_vf2 (\<lambda>n. 0) (\<lambda>n. n))
       \<lparr>tools := Some [(make_tool (\<lambda>n. 0) 1 1)\<lparr>currentLife := 10\<rparr>],
        warnings := [battery_warning]\<rparr>"

text \<open>The press brake after twenty injected alarms.\<close>

definition full_press :: machine where
  "full_press = run (replicate 20 (InjectAlarm None ''E'')) (durma_press (\<lambda>n. 0) (\<lambda>n. n))"

text \<open>The order of the cycle phases of a mill or lathe, as the specification lists them.\<close>

fun next_phase :: "phase \<Rightarrow> phase" where
  "next_phase PH_IDLE = PH_SPINDLE_RAMP"
| "next_phase PH_SPINDLE_RAMP = PH_RAPID"
| "next_phase PH_RAPID = PH_CUTTING"
| "next_phase PH_CUTTING = PH_RETRACT"
| "next_phase PH_RETRACT = PH_DWELL"
| "next_phase PH_DWELL = PH_FINISH"
| "next_phase PH_FINISH = PH_IDLE"
| "next_phase PH_RUNNING = PH_RUNNING"

text \<open>The states a machine passes through, one for each tick or command.\<close>

fun trace :: "command list \<Rightarrow> machine \<Rightarrow> machine list" where
  "trace [] s = []"
| "trace (c # cs) s = exec c s # trace cs (exec c s)"

text \<open>
  A synthetic run of the VF-2 from its constructed state: every random draw is stubbed to 0
  (which starts a cycle on the first tick) and every tick lasts 20 seconds.
\<close>

definition synthetic_cycle :: "machine list" where
  "synthetic_cycle =
     trace [Update 20, Update 20, Update 20, Update 20, Update 20, Update 20, Update 20]
       (haas_vf2 (\<lambda>n. 0) (\<lambda>n. n))"

text \<open>
  The fibre laser in the middle of a cut at 5900 of its 6000 watts, with the resonator at 85
  degrees; all draws are stubbed to 0.
\<close>

definition overheated_laser :: machine where
  "overheated_laser =
     (fiber_laser (\<lambda>n. 0) (\<lambda>n. n))
       \<lparr>cyclePhase := PH_RUNNING, execution := EX_RUNNING, laserPower := 5900,
        targetFeed := 800, resonatorTemp := 85\<rparr>"

text \<open>
  The VF-2 at the tick period of the simulation loop (2 seconds). Every draw is stubbed to 0,
  which starts a cycle on each idle tick, except the draw for the target spindle speed of the
  first cycle, which is 0.5 (target 5550). \<open>second_start\<close> is the state after 21 ticks.
\<close>

definition restart_draws :: "nat \<Rightarrow> real" where
  "restart_draws n = (if n = 147 then 0.5 else 0)"

definition second_start :: machine where
  "second_start = run (replicate 21 (Update 2)) (haas_vf2 restart_draws (\<lambda>n. n))"

subsection \<open>Projections used in the proofs\<close>

text \<open>The state \<open>update\<close> hands to the cycle: the clock read, the hours and the phase time.\<close>

definition tick_entry :: "real \<Rightarrow> machine \<Rightarrow> machine" where
  "tick_entry dtSec s =
     s\<lparr>reads := reads s + 1, timestamp := now s,
       machineOnHours := machineOnHours s + dtSec / 3600,
       timeInPhase := timeInPhase s + dtSec\<rparr>"

text \<open>The fields no cycle and no sensor update writes.\<close>

definition kept :: "machine \<Rightarrow> machine_type \<times> specs_t \<times> bool \<times> string option \<times> int option \<times> alarm_entry list \<times> real \<times> real \<times> nat" where
  "kept s = (type_m s, specs s, power_m s, alarm s, alarmCode s, alarmHistory s, maxTonnage s, maxLaserPower s, reads s)"


text \<open>The fields only the cycles write: no sensor update, alarm or warning touches them.\<close>

definition driven :: "machine \<Rightarrow> machine_type \<times> specs_t \<times> bool \<times> phase \<times> real \<times> nat \<times> nat \<times> real xyz \<times> real \<times> real \<times> real \<times> real \<times> real" where
  "driven s = (type_m s, specs s, power_m s, cyclePhase s, timeInPhase s, partCount s, totalCycles s,
     axisPositions s, tonnage s, ramPosition s, maxTonnage s, spindleSpeed s, targetSpindleSpeed s)"

text \<open>The phase and the two production counters.\<close>

definition progress :: "machine \<Rightarrow> phase \<times> nat \<times> nat" where
  "progress s = (cyclePhase s, partCount s, totalCycles s)"

section \<open>Properties\<close>

subsection \<open>Fields the cycles and the sensors leave alone\<close>

lemmas cutting_defs = cutting_feed_ramp_def cutting_z_descent_def cutting_spindle_load_def
  cutting_tool_wear_def cutting_spindle_hours_def cutting_current_tool_def cutting_coolant_def
  cutting_servo_def cutting_completion_def

lemmas phase_defs = phaseIdle_def startNewCycle_def phaseSpindleRamp_def phaseRapid_def
  phaseRetract_def phaseDwell_def phaseFinish_def

lemma kept_cutting_steps:
  "kept (cutting_feed_ramp dt s) = kept s"
  "kept (cutting_z_descent dt s) = kept s"
  "kept (cutting_spindle_load s) = kept s"
  "kept (cutting_tool_wear s) = kept s"
  "kept (cutting_spindle_hours dt s) = kept s"
  "kept (cutting_current_tool s) = kept s"
  "kept (cutting_coolant s) = kept s"
  "kept (cutting_servo s) = kept s"
  "kept (cutting_completion s) = kept s"
  by (simp_all add: kept_def cutting_defs Let_def consume_def split: option.splits prod.splits)

lemma kept_upd [simp]:
  "kept (s\<lparr>execution := e\<rparr>) = kept s"
  by (simp add: kept_def)

lemma kept_phaseCutting: "kept (phaseCutting dt s) = kept s"
  by (simp add: phaseCutting_def Let_def kept_cutting_steps)

lemma kept_startNewCycle: "kept (startNewCycle s) = kept s"
  by (simp add: kept_def startNewCycle_def Let_def consume_def)

lemma kept_phaseIdle: "kept (phaseIdle dt s) = kept s"
  by (simp add: phaseIdle_def Let_def kept_startNewCycle) (simp add: kept_def consume_def split: option.splits)

lemma kept_phases:
  "kept (phaseSpindleRamp dt s) = kept s"
  "kept (phaseRapid dt s) = kept s"
  "kept (phaseRetract dt s) = kept s"
  "kept (phaseDwell dt s) = kept s"
  "kept (phaseFinish dt s) = kept s"
  by (simp_all add: kept_def phase_defs Let_def consume_def split: option.splits prod.splits)

lemma kept_updateCNCCycle: "kept (updateCNCCycle dt s) = kept s"
  by (simp add: updateCNCCycle_def kept_phases kept_phaseIdle kept_phaseCutting split: phase.splits)

lemma kept_press_steps:
  "kept (press_start s) = kept s"
  "kept (press_ram dt s) = kept s"
  "kept (press_completion s) = kept s"
  "kept (press_idle s) = kept s"
  by (simp_all add: kept_def press_start_def press_ram_def press_completion_def press_idle_def Let_def consume_def)

lemma kept_updatePressCycle: "kept (updatePressCycle dt s) = kept s"
  by (simp add: updatePressCycle_def Let_def kept_press_steps)

lemma kept_laser_steps:
  "kept (laser_start s) = kept s"
  "kept (laser_power_ramp s) = kept s"
  "kept (laser_feed_ramp dt s) = kept s"
  "kept (laser_xy_movement s) = kept s"
  "kept (laser_temperature s) = kept s"
  "kept (laser_completion s) = kept s"
  "kept (laser_idle s) = kept s"
  by (simp_all add: kept_def laser_start_def laser_power_ramp_def laser_feed_ramp_def
     laser_xy_movement_def laser_temperature_def laser_completion_def laser_idle_def Let_def consume_def)

lemma kept_updateLaserCycle: "kept (updateLaserCycle dt s) = kept s"
  by (simp add: updateLaserCycle_def Let_def kept_laser_steps)

lemma kept_health_steps:
  "kept (health_temperature s) = kept s"
  "kept (health_battery dt s) = kept s"
  "kept (health_oil s) = kept s"
  "kept (health_servo_temp s) = kept s"
  by (simp_all add: kept_def health_temperature_def health_battery_def health_oil_def
     health_servo_temp_def Let_def consume_def)

lemma kept_updateHealthSensors: "kept (updateHealthSensors dt s) = kept s"
  by (simp add: updateHealthSensors_def kept_health_steps)


lemma kept_cycle_dispatch: "kept (cycle_dispatch dt s) = kept s"
  by (simp add: cycle_dispatch_def kept_updateCNCCycle kept_updatePressCycle kept_updateLaserCycle)

subsection \<open>Setting and clearing alarms\<close>

lemma setAlarm_history:
  "alarmHistory (setAlarm c msg s) =
     slice_last 20 (alarmHistory s @ [\<lparr>code = c, message = msg, timestamp_a = now s,
        cyclePhase_a = cyclePhase s, spindleLoad_a = spindleLoad s, cleared = False\<rparr>])"
  by (simp add: setAlarm_def Let_def tick_clock_def slice_last_def)

lemma setAlarm_length: "length (alarmHistory (setAlarm c msg s)) \<le> 20"
  by (simp add: setAlarm_history slice_last_def)

lemma priv_clearAlarm_history:
  "alarmHistory (priv_clearAlarm s) =
     (if alarmHistory s = [] then [] else butlast (alarmHistory s) @ [(last (alarmHistory s))\<lparr>cleared := True\<rparr>])"
  by (cases "alarmHistory s" rule: rev_cases) (simp_all add: priv_clearAlarm_def Let_def)

lemma priv_clearAlarm_length: "length (alarmHistory (priv_clearAlarm s)) = length (alarmHistory s)"
  by (simp add: priv_clearAlarm_def Let_def)

lemma alarm_if_cases:
  "alarm_if cond p c msg rest s =
     (if cond then (if draw s < p then setAlarm c msg (consume s) else rest (consume s)) else rest s)"
  by (simp add: alarm_if_def gate_def)

lemma alarm_if_inv:
  assumes "P s"
    and "\<And>t. P t \<Longrightarrow> P (consume t)"
    and "\<And>t. P t \<Longrightarrow> P (setAlarm c msg t)"
    and "\<And>t. P t \<Longrightarrow> P (rest t)"
  shows "P (alarm_if cond p c msg rest s)"
  using assms by (simp add: alarm_if_cases)

lemma checkAlarmsTool_inv:
  assumes "P s"
    and "\<And>t. P t \<Longrightarrow> P (consume t)"
    and "\<And>t c msg. P t \<Longrightarrow> P (setAlarm c msg t)"
  shows "P (checkAlarmsTool s)"
  using assms by (simp add: checkAlarmsTool_def alarm_if_cases split: option.splits)

lemma checkAlarmsCNC_inv:
  assumes "P s"
    and "\<And>t. P t \<Longrightarrow> P (consume t)"
    and "\<And>t c msg. P t \<Longrightarrow> P (setAlarm c msg t)"
  shows "P (checkAlarmsCNC s)"
  unfolding checkAlarmsCNC_def
  by (intro alarm_if_inv [where P = P] checkAlarmsTool_inv [where P = P] assms)

lemma checkAlarms_inv:
  assumes "P s"
    and "\<And>t. P t \<Longrightarrow> P (consume t)"
    and "\<And>t c msg. P t \<Longrightarrow> P (setAlarm c msg t)"
  shows "P (checkAlarms s)"
proof -
  have 1: "P (checkAlarmsCNC s)" by (rule checkAlarmsCNC_inv [where P = P]) (fact assms)+
  have 2: "P (checkAlarmsPress t)" if "P t" for t
    using that assms(2,3) by (simp add: checkAlarmsPress_def alarm_if_cases)
  have 3: "P (checkAlarmsLaser t)" if "P t" for t
    using that assms(2,3) by (simp add: checkAlarmsLaser_def Let_def alarm_if_cases)
  show ?thesis
    using 1 2 3 assms(1) by (simp add: checkAlarms_def Let_def)
qed


subsection \<open>The three paths of \<open>update\<close>\<close>

lemma update_running:
  assumes "power_m s" and "\<not> truthy (alarm s)"
  shows "update dt s =
     updateWarnings (checkAlarms (updateHealthSensors dt (cycle_dispatch dt (tick_entry dt s))))"
  using assms by (simp add: update_def Let_def tick_clock_def tick_entry_def)

lemma press_off_facts:
  "power_m (setPower False (durma_press (\<lambda>n. 0) (\<lambda>n. n))) = False"
  "timestamp (setPower False (durma_press (\<lambda>n. 0) (\<lambda>n. n))) = 0"
  "now (setPower False (durma_press (\<lambda>n. 0) (\<lambda>n. n))) = 1"
  by (simp_all add: setPower_def durma_press_def init_def Let_def now_def)

lemma vf2_alarm_facts:
  "power_m (injectAlarm (Some 103) ''X AXIS FOLLOWING ERROR'' (haas_vf2 (\<lambda>n. 0) (\<lambda>n. n)))"
  "truthy (alarm (injectAlarm (Some 103) ''X AXIS FOLLOWING ERROR'' (haas_vf2 (\<lambda>n. 0) (\<lambda>n. n))))"
  "alarmHistory (injectAlarm (Some 103) ''X AXIS FOLLOWING ERROR'' (haas_vf2 (\<lambda>n. 0) (\<lambda>n. n))) =
     [\<lparr>code = Some 103, message = ''X AXIS FOLLOWING ERROR'', timestamp_a = 1,
        cyclePhase_a = PH_IDLE, spindleLoad_a = 0, cleared = False\<rparr>]"
  "rand (injectAlarm (Some 103) ''X AXIS FOLLOWING ERROR'' (haas_vf2 (\<lambda>n. 0) (\<lambda>n. n))) = (\<lambda>n. 0)"
  "spindleSpeed (injectAlarm (Some 103) ''X AXIS FOLLOWING ERROR'' (haas_vf2 (\<lambda>n. 0) (\<lambda>n. n))) = 0"
  by (simp_all add: injectAlarm_def setAlarm_def haas_vf2_def init_def Let_def tick_clock_def
      truthy_def now_def slice_last_def)

text \<open>
  C8, as amended. With the power off, \<open>update\<close> sets execution to STOPPED, the cycle phase to
  IDLE and spindle speed, spindle load and feed rate to 0, whatever the state was; besides
  these it only refreshes \<open>timestamp\<close> from the clock (and so reads the clock once). No hours
  accrue and no cycle, sensor, alarm or warning field changes: the result is the entry state
  with exactly these fields written.
\<close>

theorem update_power_off:
  assumes "\<not> power_m s"
  shows "update dt s = s\<lparr>reads := reads s + 1, timestamp := now s, execution := EX_STOPPED, cyclePhase := PH_IDLE,
          spindleSpeed := 0, spindleLoad := 0, feedRate := 0\<rparr>"
  using assms by (simp add: update_def Let_def tick_clock_def)

theorem update_power_off_witness:
  "timestamp (update 2 (setPower False (durma_press (\<lambda>n. 0) (\<lambda>n. n)))) = 1
   \<and> execution (update 2 (setPower False (durma_press (\<lambda>n. 0) (\<lambda>n. n)))) = EX_STOPPED
   \<and> spindleSpeed (update 2 (setPower False (durma_press (\<lambda>n. 0) (\<lambda>n. n)))) = 0"
  using update_power_off [of "setPower False (durma_press (\<lambda>n. 0) (\<lambda>n. n))" 2]
  by (simp add: press_off_facts)

text \<open>
  C8 as stated fails: the powered-off call is not free of other state updates. The press brake
  of the fleet, built at clock reading 0 and switched off, has \<open>timestamp = 0\<close>; the next
  \<open>update\<close> leaves it with the clock's next reading.
\<close>

theorem power_off_timestamp_counterexample:
  "timestamp (update 2 (setPower False (durma_press (\<lambda>n. 0) (\<lambda>n. n))))
     \<noteq> timestamp (setPower False (durma_press (\<lambda>n. 0) (\<lambda>n. n)))"
  by (simp add: update_def Let_def tick_clock_def press_off_facts)

text \<open>
  C2. With the power on and an alarm active at entry, \<open>update\<close> reads the clock, adds the tick
  to the hours and the phase time, sets execution to ALARM and the phase to IDLE, lowers the
  spindle speed by \<open>500 * dt\<close> but not below 0, sets the feed rate to 0 and makes exactly one
  random draw; the alarm is cleared exactly when that draw is below 0.02 (2 percent of the
  unit interval). Nothing else is written: no cycle, sensor, alarm-evaluation or warning field.
\<close>

theorem update_alarm_active:
  assumes "power_m s" and "truthy (alarm s)"
  shows "update dt s =
     (let h = alarmHistory s;
          s' = s\<lparr>reads := reads s + 1, timestamp := now s,
                 machineOnHours := machineOnHours s + dt / 3600,
                 timeInPhase := timeInPhase s + dt,
                 execution := EX_ALARM, cyclePhase := PH_IDLE,
                 spindleSpeed := max 0 (spindleSpeed s - 500 * dt), feedRate := 0,
                 draws := draws s + 1\<rparr>
      in if rand s (draws s) < 0.02
         then s'\<lparr>alarmHistory := (if h = [] then [] else butlast h @ [(last h)\<lparr>cleared := True\<rparr>]),
                 alarm := None, alarmCode := None, execution := EX_IDLE\<rparr>
         else s')"
  using assms
  by (cases "alarmHistory s" rule: rev_cases)
     (simp_all add: update_def Let_def tick_clock_def draw_def consume_def priv_clearAlarm_def)

theorem update_alarm_active_witness:
  "execution (update 2 (injectAlarm (Some 103) ''X AXIS FOLLOWING ERROR'' (haas_vf2 (\<lambda>n. 0) (\<lambda>n. n)))) = EX_IDLE
   \<and> alarm (update 2 (injectAlarm (Some 103) ''X AXIS FOLLOWING ERROR'' (haas_vf2 (\<lambda>n. 0) (\<lambda>n. n)))) = None
   \<and> spindleSpeed (update 2 (injectAlarm (Some 103) ''X AXIS FOLLOWING ERROR'' (haas_vf2 (\<lambda>n. 0) (\<lambda>n. n)))) = 0
   \<and> cyclePhase (update 2 (injectAlarm (Some 103) ''X AXIS FOLLOWING ERROR'' (haas_vf2 (\<lambda>n. 0) (\<lambda>n. n)))) = PH_IDLE"
  using update_alarm_active [OF vf2_alarm_facts(1) vf2_alarm_facts(2), of 2]
  by (simp add: Let_def vf2_alarm_facts)

text \<open>
  C5. In a state with an active alarm, both the command \<open>clearAlarm\<close> and the automatic clear
  inside \<open>update\<close> (power on, draw below 0.02) set \<open>alarm\<close> and \<open>alarmCode\<close> to null and
  execution to IDLE, and change the history only in its last entry, whose \<open>cleared\<close> flag
  becomes true while its code, message and other fields stay.
\<close>

theorem clearing_an_alarm:
  assumes "truthy (alarm s)"
  shows "(let c = clearAlarm s; h = alarmHistory s in
            alarm c = None \<and> alarmCode c = None \<and> execution c = EX_IDLE \<and>
            alarmHistory c = (if h = [] then [] else butlast h @ [(last h)\<lparr>cleared := True\<rparr>]))
       \<and> (power_m s \<and> draw s < 0.02 \<longrightarrow>
           (let c = update dt s; h = alarmHistory s in
            alarm c = None \<and> alarmCode c = None \<and> execution c = EX_IDLE \<and>
            alarmHistory c = (if h = [] then [] else butlast h @ [(last h)\<lparr>cleared := True\<rparr>])))"
proof -
  have a: "alarm (priv_clearAlarm t) = None \<and> alarmCode (priv_clearAlarm t) = None
      \<and> execution (priv_clearAlarm t) = EX_IDLE" for t
    by (simp add: priv_clearAlarm_def Let_def)
  have b: "update dt s = priv_clearAlarm (consume ((tick_entry dt s)\<lparr>execution := EX_ALARM, cyclePhase := PH_IDLE,
        spindleSpeed := max 0 (spindleSpeed s - 500 * dt), feedRate := 0\<rparr>))"
    if "power_m s" "draw s < 0.02"
    using that assms by (simp add: update_def Let_def tick_clock_def tick_entry_def draw_def)
  have c: "alarmHistory (update dt s) =
      (if alarmHistory s = [] then [] else butlast (alarmHistory s) @ [(last (alarmHistory s))\<lparr>cleared := True\<rparr>])"
    if "power_m s" "draw s < 0.02"
    by (simp add: b [OF that] priv_clearAlarm_history consume_def tick_entry_def)
  have d: "alarm (update dt s) = None \<and> alarmCode (update dt s) = None \<and> execution (update dt s) = EX_IDLE"
    if "power_m s" "draw s < 0.02"
    by (simp only: b [OF that] a)
  have e: "alarm (clearAlarm s) = None \<and> alarmCode (clearAlarm s) = None \<and> execution (clearAlarm s) = EX_IDLE"
    by (simp only: clearAlarm_def a)
  have f: "alarmHistory (clearAlarm s) =
      (if alarmHistory s = [] then [] else butlast (alarmHistory s) @ [(last (alarmHistory s))\<lparr>cleared := True\<rparr>])"
    by (simp only: clearAlarm_def priv_clearAlarm_history)
  show ?thesis
    unfolding Let_def using c d e f by blast
qed

text \<open>The scenario of the specification: alarm 103 injected into the VF-2, then cleared.\<close>

theorem clearing_an_alarm_witness:
  "(let c = clearAlarm (injectAlarm (Some 103) ''X AXIS FOLLOWING ERROR'' (haas_vf2 (\<lambda>n. 0) (\<lambda>n. n))) in
      alarm c = None \<and> alarmCode c = None \<and> execution c = EX_IDLE \<and>
      alarmHistory c = [\<lparr>code = Some 103, message = ''X AXIS FOLLOWING ERROR'', timestamp_a = 1,
        cyclePhase_a = PH_IDLE, spindleLoad_a = 0, cleared = True\<rparr>])"
  using clearing_an_alarm [OF vf2_alarm_facts(2), of 2]
  by (simp add: Let_def vf2_alarm_facts)

subsection \<open>Fields the sensors, the alarms and the warnings leave alone\<close>

lemma driven_steps:
  "driven (consume s) = driven s"
  "driven (setAlarm c msg s) = driven s"
  "driven (updateWarnings s) = driven s"
  "driven (health_temperature s) = driven s"
  "driven (health_battery dt s) = driven s"
  "driven (health_oil s) = driven s"
  "driven (health_servo_temp s) = driven s"
  by (simp_all add: driven_def consume_def setAlarm_def updateWarnings_def tick_clock_def
      health_temperature_def health_battery_def health_oil_def health_servo_temp_def Let_def)

lemma driven_updateHealthSensors: "driven (updateHealthSensors dt s) = driven s"
  by (simp add: updateHealthSensors_def driven_steps)

lemma driven_checkAlarms: "driven (checkAlarms s) = driven s"
  by (rule checkAlarms_inv [where P = "\<lambda>t. driven t = driven s"]) (simp_all add: driven_steps)

lemma driven_after_cycle:
  "driven (updateWarnings (checkAlarms (updateHealthSensors dt s))) = driven s"
  by (simp add: driven_steps driven_checkAlarms driven_updateHealthSensors)

lemma kept_fields:
  assumes "kept a = kept b"
  shows "type_m a = type_m b" "specs a = specs b" "power_m a = power_m b" "alarm a = alarm b"
    "alarmCode a = alarmCode b" "alarmHistory a = alarmHistory b" "maxTonnage a = maxTonnage b"
    "maxLaserPower a = maxLaserPower b" "reads a = reads b"
  using assms by (simp_all add: kept_def)

lemma driven_fields:
  assumes "driven a = driven b"
  shows "type_m a = type_m b" "specs a = specs b" "power_m a = power_m b" "cyclePhase a = cyclePhase b"
    "timeInPhase a = timeInPhase b" "partCount a = partCount b" "totalCycles a = totalCycles b"
    "axisPositions a = axisPositions b" "tonnage a = tonnage b" "ramPosition a = ramPosition b"
    "maxTonnage a = maxTonnage b" "spindleSpeed a = spindleSpeed b"
    "targetSpindleSpeed a = targetSpindleSpeed b"
  using assms by (simp_all add: driven_def)

lemma kept_tick_entry:
  "alarmHistory (tick_entry dt s) = alarmHistory s" "alarm (tick_entry dt s) = alarm s"
  "type_m (tick_entry dt s) = type_m s" "power_m (tick_entry dt s) = power_m s"
  "maxTonnage (tick_entry dt s) = maxTonnage s" "specs (tick_entry dt s) = specs s"
  by (simp_all add: tick_entry_def)

subsection \<open>Warnings\<close>

lemma active_tool_warnings: "active_tool (s\<lparr>warnings := w\<rparr>) = active_tool s"
  by (simp add: active_tool_def split: option.splits)

lemma current_warnings_updateWarnings: "current_warnings (updateWarnings s) = current_warnings s"
  by (simp add: current_warnings_def updateWarnings_def active_tool_warnings)

lemma current_warnings_members:
  "battery_warning \<in> set (current_warnings s) \<longleftrightarrow> batteryVoltage s < 3.2"
  "coolant_warning \<in> set (current_warnings s) \<longleftrightarrow> (case coolant s of None \<Rightarrow> False | Some c \<Rightarrow> level c < 20)"
  "temp_warning \<in> set (current_warnings s) \<longleftrightarrow> spindleTemp s > 75"
  "load_warning \<in> set (current_warnings s) \<longleftrightarrow> spindleLoad s > 85"
  by (auto simp add: current_warnings_def battery_warning_def coolant_warning_def
      temp_warning_def load_warning_def tool_warning_def split: option.splits)

lemma laser_init_expand:
  "fiber_laser r c = \<lparr>id_m = ''fiber_laser'', name = ''Fiber Laser'', model = ''LASER'', type_m = LASER,
     specs = \<lparr>axisLimits = \<lparr>X = (0, 1500), Y = (0, 3000), Z = (0, 100)\<rparr>, spindlePower = 30, maxRPM = 8100,
        rapidTraverse = 1000, toolCapacity = 24\<rparr>,
          power_m = True, execution = EX_IDLE, cyclePhase = PH_IDLE,
          timeInPhase = 0, cycleTimeTarget = 20 + r 0 * 25,
          alarm = None, alarmCode = None, alarmHistory = [], warnings = [],
          spindleSpeed = 0, targetSpindleSpeed = 0, spindleLoad = 0, spindleTemp = 25,
          spindleHours = 0, spindleOrientation = 0,
          feedRate = 0, targetFeed = 0, rapidRate = 0,
          axisPositions = \<lparr>X = 750, Y = 1500, Z = 100\<rparr>,
          servoLoad = \<lparr>X = 0, Y = 0, Z = 0\<rparr>,
          servoFollowingError = \<lparr>X = 0, Y = 0, Z = 0\<rparr>,
          servoTemp = \<lparr>X = 25, Y = 25, Z = 25\<rparr>,
          partCount = 0, totalCycles = 0, machineOnHours = 0, productionRate = 0,
          batteryVoltage = 3.6, temperature = 72, vibration = 0, currentAmps = 7,
          oilPressure = 50, oilLevel = 100,
          currentTool = None, tools = None, toolChangeCount = 0, toolWear = 0, coolant = None,
          tonnage = 0, maxTonnage = 0, ramPosition = 0, backGauge = 0, bendAngle = 0,
          laserPower = 0, maxLaserPower = 6000, gasPressure = 240, resonatorTemp = 26, cutSpeed = 0,
          material = None, programRunning = None, timestamp = c 0, rand = r, draws = 1, clock = c, reads = 1\<rparr>"
  by (simp add: fiber_laser_def init_def Let_def or_default_def is_cnc_def)

lemmas laser_defs = laser_start_def laser_power_ramp_def laser_feed_ramp_def
     laser_xy_movement_def laser_temperature_def laser_completion_def laser_idle_def
lemmas health_defs = health_temperature_def health_battery_def health_oil_def health_servo_temp_def

subsection \<open>The alarm history\<close>

lemma update_history_bound:
  assumes "length (alarmHistory s) \<le> 20"
  shows "length (alarmHistory (update dt s)) \<le> 20"
proof (cases "power_m s \<and> \<not> truthy (alarm s)")
  case True
  let ?t = "updateHealthSensors dt (cycle_dispatch dt (tick_entry dt s))"
  have "alarmHistory ?t = alarmHistory s"
    using kept_fields(6) [OF kept_updateHealthSensors] kept_fields(6) [OF kept_cycle_dispatch]
    by (simp add: kept_tick_entry)
  with assms have "length (alarmHistory ?t) \<le> 20" by simp
  then have "length (alarmHistory (checkAlarms ?t)) \<le> 20"
    by (rule checkAlarms_inv [where P = "\<lambda>t. length (alarmHistory t) \<le> 20"])
       (simp_all add: consume_def setAlarm_length)
  with True show ?thesis by (simp add: update_running updateWarnings_def)
next
  case False
  then have "length (alarmHistory (update dt s)) = length (alarmHistory s)"
    by (auto simp add: update_def Let_def tick_clock_def consume_def priv_clearAlarm_length)
  with assms show ?thesis by simp
qed

lemma exec_history_bound:
  assumes "length (alarmHistory s) \<le> 20"
  shows "length (alarmHistory (exec c s)) \<le> 20"
  using assms
  by (cases c) (simp_all add: update_history_bound setPower_def injectAlarm_def setAlarm_length
      clearAlarm_def priv_clearAlarm_length Let_def)

lemma run_history_bound:
  "length (alarmHistory s) \<le> 20 \<Longrightarrow> length (alarmHistory (run cmds s)) \<le> 20"
  by (induction cmds arbitrary: s) (simp_all add: exec_history_bound)

lemma init_history: "alarmHistory (init i n m ty args rnd clk) = []"
  by (simp add: init_def Let_def)

lemma injectAlarm_length:
  "length (alarmHistory (injectAlarm c msg s)) = min 20 (length (alarmHistory s) + 1)"
  by (simp add: injectAlarm_def setAlarm_history slice_last_def)

lemma run_inject_length:
  "length (alarmHistory s) \<le> 20 \<Longrightarrow>
   length (alarmHistory (run (replicate k (InjectAlarm c msg)) s)) = min 20 (length (alarmHistory s) + k)"
  by (induction k arbitrary: s) (simp_all add: injectAlarm_length)

lemma full_press_length: "length (alarmHistory full_press) = 20"
  unfolding full_press_def
  by (subst run_inject_length) (simp_all only: durma_press_def init_history list.size min.idem add_0)

subsection \<open>The press brake\<close>

lemmas press_defs = press_start_def press_ram_def press_completion_def press_idle_def

lemma tonnage_arith:
  fixes M r t :: real
  assumes "0 < M" "r \<le> 100" "t = r / 100 * (M * 0.8)"
  shows "t \<le> 0.8 * M" "\<not> t > M * 0.9"
proof -
  have "r / 100 \<le> 1" using assms(2) by simp
  then have "r / 100 * (M * 0.8) \<le> 1 * (M * 0.8)"
    using assms(1) by (intro mult_right_mono) simp_all
  then show a: "t \<le> 0.8 * M" using assms(3) by simp
  show "\<not> t > M * 0.9" using a assms(1) by linarith
qed

lemma checkAlarms_press_quiet:
  "type_m t = PRESS_BRAKE \<Longrightarrow> \<not> tonnage t > maxTonnage t * 0.9 \<Longrightarrow> checkAlarms t = t"
  by (simp add: checkAlarms_def is_cnc_def checkAlarmsPress_def alarm_if_cases Let_def)

lemma press_cycle_ram:
  assumes "cyclePhase s = PH_RUNNING \<or> ramPosition s = 0"
    and "tonnage s = ramPosition s / 100 * (maxTonnage s * 0.8)"
    and "ramPosition s \<le> 100"
  shows "(cyclePhase (updatePressCycle dt s) = PH_RUNNING \<or> ramPosition (updatePressCycle dt s) = 0)
    \<and> tonnage (updatePressCycle dt s) = ramPosition (updatePressCycle dt s) / 100 * (maxTonnage s * 0.8)
    \<and> ramPosition (updatePressCycle dt s) \<le> 100"
  using assms
  by (auto simp add: updatePressCycle_def press_defs Let_def consume_def)

lemma kept_updateWarnings: "kept (updateWarnings s) = kept s"
  by (simp add: kept_def updateWarnings_def)

lemma press_update_inv:
  assumes "type_m s = PRESS_BRAKE" "power_m s" "0 < maxTonnage s" "alarm s = None" "alarmHistory s = []"
    and "cyclePhase s = PH_RUNNING \<or> ramPosition s = 0"
    and "tonnage s = ramPosition s / 100 * (maxTonnage s * 0.8)"
    and "ramPosition s \<le> 100"
  shows "type_m (update dt s) = PRESS_BRAKE \<and> power_m (update dt s) \<and> 0 < maxTonnage (update dt s)
    \<and> maxTonnage (update dt s) = maxTonnage s
    \<and> alarm (update dt s) = None \<and> alarmHistory (update dt s) = []
    \<and> (cyclePhase (update dt s) = PH_RUNNING \<or> ramPosition (update dt s) = 0)
    \<and> tonnage (update dt s) = ramPosition (update dt s) / 100 * (maxTonnage (update dt s) * 0.8)
    \<and> ramPosition (update dt s) \<le> 100"
proof -
  let ?e = "tick_entry dt s"
  let ?c = "updatePressCycle dt ?e"
  let ?h = "updateHealthSensors dt ?c"
  have e: "type_m ?e = PRESS_BRAKE" "power_m ?e" "maxTonnage ?e = maxTonnage s" "alarm ?e = None"
    "alarmHistory ?e = []" "cyclePhase ?e = PH_RUNNING \<or> ramPosition ?e = 0"
    "tonnage ?e = ramPosition ?e / 100 * (maxTonnage ?e * 0.8)" "ramPosition ?e \<le> 100"
    using assms by (simp_all add: tick_entry_def)
  have disp: "cycle_dispatch dt ?e = ?c"
    using e(1) by (simp add: cycle_dispatch_def is_cnc_def)
  have c: "type_m ?c = PRESS_BRAKE" "power_m ?c" "maxTonnage ?c = maxTonnage s" "alarm ?c = None"
    "alarmHistory ?c = []"
    using kept_fields [OF kept_updatePressCycle [of dt ?e]] e by simp_all
  have cr: "(cyclePhase ?c = PH_RUNNING \<or> ramPosition ?c = 0)
    \<and> tonnage ?c = ramPosition ?c / 100 * (maxTonnage ?e * 0.8) \<and> ramPosition ?c \<le> 100"
    by (rule press_cycle_ram) (fact e)+
  have h: "type_m ?h = PRESS_BRAKE" "power_m ?h" "maxTonnage ?h = maxTonnage s" "alarm ?h = None"
    "alarmHistory ?h = []"
    using kept_fields [OF kept_updateHealthSensors [of dt ?c]] c by simp_all
  have hr: "cyclePhase ?h = cyclePhase ?c" "ramPosition ?h = ramPosition ?c" "tonnage ?h = tonnage ?c"
    using driven_fields [OF driven_updateHealthSensors [of dt ?c]] by simp_all
  have bound: "\<not> tonnage ?h > maxTonnage ?h * 0.9"
  proof (rule tonnage_arith(2) [where r = "ramPosition ?c"])
    show "0 < maxTonnage ?h" using h(3) assms(3) by simp
    show "ramPosition ?c \<le> 100" using cr by simp
    show "tonnage ?h = ramPosition ?c / 100 * (maxTonnage ?h * 0.8)"
      using cr hr(3) h(3) e(3) by simp
  qed
  have quiet: "checkAlarms ?h = ?h"
    by (rule checkAlarms_press_quiet) (fact h(1), fact bound)
  have upd: "update dt s = updateWarnings ?h"
    using assms(2,4) by (simp add: update_running truthy_def disp quiet)
  have w: "type_m (updateWarnings ?h) = type_m ?h" "power_m (updateWarnings ?h) = power_m ?h"
    "maxTonnage (updateWarnings ?h) = maxTonnage ?h" "alarm (updateWarnings ?h) = alarm ?h"
    "alarmHistory (updateWarnings ?h) = alarmHistory ?h" "cyclePhase (updateWarnings ?h) = cyclePhase ?h"
    "ramPosition (updateWarnings ?h) = ramPosition ?h" "tonnage (updateWarnings ?h) = tonnage ?h"
    by (simp_all add: updateWarnings_def)
  show ?thesis
    unfolding upd w using h hr cr e(3) assms(3) by simp
qed

lemma press_run_inv:
  assumes "type_m s = PRESS_BRAKE" "power_m s" "0 < maxTonnage s" "alarm s = None" "alarmHistory s = []"
    and "cyclePhase s = PH_RUNNING \<or> ramPosition s = 0"
    and "tonnage s = ramPosition s / 100 * (maxTonnage s * 0.8)"
    and "ramPosition s \<le> 100"
  shows "0 < maxTonnage (run (map Update dts) s)
    \<and> alarm (run (map Update dts) s) = None \<and> alarmHistory (run (map Update dts) s) = []
    \<and> tonnage (run (map Update dts) s)
        = ramPosition (run (map Update dts) s) / 100 * (maxTonnage (run (map Update dts) s) * 0.8)
    \<and> ramPosition (run (map Update dts) s) \<le> 100"
  using assms
proof (induction dts arbitrary: s)
  case Nil
  then show ?case by simp
next
  case (Cons dt dts)
  have "0 < maxTonnage (run (map Update dts) (update dt s))
    \<and> alarm (run (map Update dts) (update dt s)) = None \<and> alarmHistory (run (map Update dts) (update dt s)) = []
    \<and> tonnage (run (map Update dts) (update dt s))
        = ramPosition (run (map Update dts) (update dt s)) / 100 * (maxTonnage (run (map Update dts) (update dt s)) * 0.8)
    \<and> ramPosition (run (map Update dts) (update dt s)) \<le> 100"
    using press_update_inv [OF Cons.prems, of dt] by (intro Cons.IH) simp_all
  then show ?case by simp
qed

text \<open>
  C10. On a press brake built with a positive \<open>maxTonnage\<close>, after every sequence of ticks
  (of any length of time each) the ram position is at most 100, the tonnage is
  \<open>(ramPosition / 100) * (maxTonnage * 0.8)\<close> and so at most \<open>0.8 * maxTonnage\<close>, the test
  \<open>tonnage > 0.9 * maxTonnage\<close> of the alarm evaluation is false, and no alarm has been set:
  the active alarm is null and the history is empty.
\<close>

theorem press_never_over_tonnage:
  assumes "0 < or_default (maxTonnage_arg args) 200"
  shows "(let s = run (map Update dts) (init i n m PRESS_BRAKE args rnd clk) in
            ramPosition s \<le> 100
            \<and> tonnage s = (ramPosition s / 100) * (maxTonnage s * 0.8)
            \<and> tonnage s \<le> 0.8 * maxTonnage s
            \<and> \<not> tonnage s > maxTonnage s * 0.9
            \<and> alarm s = None \<and> alarmHistory s = [])"
proof -
  let ?s = "run (map Update dts) (init i n m PRESS_BRAKE args rnd clk)"
  have inv: "0 < maxTonnage ?s \<and> alarm ?s = None \<and> alarmHistory ?s = []
     \<and> tonnage ?s = ramPosition ?s / 100 * (maxTonnage ?s * 0.8) \<and> ramPosition ?s \<le> 100"
    using assms by (intro press_run_inv) (simp_all add: init_def Let_def)
  then have "tonnage ?s \<le> 0.8 * maxTonnage ?s" "\<not> tonnage ?s > maxTonnage ?s * 0.9"
    using tonnage_arith [of "maxTonnage ?s" "ramPosition ?s" "tonnage ?s"] by blast+
  with inv show ?thesis unfolding Let_def by blast
qed

lemma press3_facts:
  "tonnage (run (map Update [2, 2, 2]) (durma_press (\<lambda>n. 0) (\<lambda>n. n))) = 160"
  "maxTonnage (run (map Update [2, 2, 2]) (durma_press (\<lambda>n. 0) (\<lambda>n. n))) = 200"
  "ramPosition (run (map Update [2, 2, 2]) (durma_press (\<lambda>n. 0) (\<lambda>n. n))) = 100"
  by (simp_all add: durma_press_def init_def Let_def or_default_def is_cnc_def
      update_def tick_clock_def now_def truthy_def cycle_dispatch_def updatePressCycle_def press_defs
      draw_def consume_def updateHealthSensors_def health_defs checkAlarms_def checkAlarmsPress_def
      alarm_if_cases updateWarnings_def current_warnings_def active_tool_def)

text \<open>
  C10 at the press brake of the fleet: three ticks of 2 seconds, with the draws stubbed to 0,
  bring the ram to 100 and the tonnage to 160, which is 0.8 of the rated 200.
\<close>

theorem press_never_over_tonnage_witness:
  "0 < or_default (Some (200::real)) 200
   \<and> tonnage (run (map Update [2, 2, 2]) (durma_press (\<lambda>n. 0) (\<lambda>n. n))) = 160
   \<and> maxTonnage (run (map Update [2, 2, 2]) (durma_press (\<lambda>n. 0) (\<lambda>n. n))) = 200
   \<and> alarm (run (map Update [2, 2, 2]) (durma_press (\<lambda>n. 0) (\<lambda>n. n))) = None"
proof -
  have pos: "0 < or_default (maxTonnage_arg
      \<lparr>axisLimits_arg = Some \<lparr>X = (0, 100), Y = (0, 2000), Z = (0, 300)\<rparr>,
         spindlePower_arg = None, maxRPM_arg = None, rapidTraverse_arg = None,
         toolCapacity_arg = None, maxTonnage_arg = Some (200::real), maxLaserPower_arg = None\<rparr>) 200"
    by (simp add: or_default_def)
  show ?thesis
    using press_never_over_tonnage [OF pos, of "[2, 2, 2]" "''durma_press''" "''Durma Press Brake''"
        "''PRESS''" "\<lambda>n. 0" "\<lambda>n. n"]
    unfolding Let_def durma_press_def [symmetric]
    by (simp only: press3_facts) (simp add: or_default_def)
qed

subsection \<open>The cycle of mills and lathes\<close>

lemma progress_cutting_steps:
  "progress (cutting_feed_ramp dt s) = progress s"
  "progress (cutting_z_descent dt s) = progress s"
  "progress (cutting_spindle_load s) = progress s"
  "progress (cutting_tool_wear s) = progress s"
  "progress (cutting_spindle_hours dt s) = progress s"
  "progress (cutting_current_tool s) = progress s"
  "progress (cutting_coolant s) = progress s"
  "progress (cutting_servo s) = progress s"
  by (simp_all add: progress_def cutting_defs Let_def consume_def split: option.splits prod.splits)

lemma progress_phaseCutting:
  "progress (phaseCutting dt s) = progress s
   \<or> progress (phaseCutting dt s) = (PH_RETRACT, partCount s, totalCycles s)"
proof -
  let ?t = "cutting_servo (cutting_coolant (cutting_current_tool (cutting_spindle_hours dt
     (cutting_tool_wear (cutting_spindle_load (cutting_z_descent dt (cutting_feed_ramp dt
        (s\<lparr>execution := EX_RUNNING\<rparr>))))))))"
  have "progress ?t = progress s"
    by (simp add: progress_cutting_steps) (simp add: progress_def)
  moreover have "progress (cutting_completion ?t) = progress ?t
      \<or> progress (cutting_completion ?t) = (PH_RETRACT, partCount ?t, totalCycles ?t)"
    by (simp add: cutting_completion_def progress_def)
  ultimately show ?thesis
    by (simp add: phaseCutting_def progress_def)
qed

lemma updateCNCCycle_progress:
  "(cyclePhase (updateCNCCycle dt s) = cyclePhase s
      \<or> cyclePhase (updateCNCCycle dt s) = next_phase (cyclePhase s))
   \<and> (cyclePhase s = PH_FINISH \<longrightarrow>
        cyclePhase (updateCNCCycle dt s) = PH_IDLE \<and> timeInPhase (updateCNCCycle dt s) = 0
        \<and> partCount (updateCNCCycle dt s) = partCount s + 1
        \<and> totalCycles (updateCNCCycle dt s) = totalCycles s + 1)
   \<and> (cyclePhase s \<noteq> PH_FINISH \<longrightarrow>
        partCount (updateCNCCycle dt s) = partCount s
        \<and> totalCycles (updateCNCCycle dt s) = totalCycles s)"
proof (cases "cyclePhase s")
  case PH_CUTTING
  then show ?thesis
    using progress_phaseCutting [of dt s] by (auto simp add: updateCNCCycle_def progress_def)
next
  case PH_IDLE
  then show ?thesis
    by (simp add: updateCNCCycle_def phaseIdle_def startNewCycle_def Let_def consume_def
        split: option.splits)
qed (simp_all add: updateCNCCycle_def phase_defs Let_def consume_def split: option.splits prod.splits)

lemma length_initializeTools:
  "length (initializeTools ty sp r d) = (if ty = CNC_MILL then toolCapacity sp else 12)"
  by (simp add: initializeTools_def Let_def)

lemma nth_initializeTools:
  "k < (if ty = CNC_MILL then toolCapacity sp else 12) \<Longrightarrow>
   initializeTools ty sp r d ! k = make_tool r (d + 6 * k) (k + 1)"
  by (simp add: initializeTools_def Let_def del: upt_Suc)

lemma vf2_init_expand:
  "haas_vf2 r c = \<lparr>id_m = ''haas_vf2'', name = ''Haas VF-2'', model = ''VF-2'', type_m = CNC_MILL,
     specs = \<lparr>axisLimits = \<lparr>X = (0, 762), Y = (0, 406), Z = (0, 508)\<rparr>, spindlePower = 30, maxRPM = 8100,
        rapidTraverse = 1000, toolCapacity = 24\<rparr>,
          power_m = True, execution = EX_IDLE, cyclePhase = PH_IDLE,
          timeInPhase = 0, cycleTimeTarget = 20 + r 0 * 25,
          alarm = None, alarmCode = None, alarmHistory = [], warnings = [],
          spindleSpeed = 0, targetSpindleSpeed = 0, spindleLoad = 0, spindleTemp = 25,
          spindleHours = 0, spindleOrientation = 0,
          feedRate = 0, targetFeed = 0, rapidRate = 0,
          axisPositions = \<lparr>X = 381, Y = 203, Z = 508\<rparr>,
          servoLoad = \<lparr>X = 0, Y = 0, Z = 0\<rparr>,
          servoFollowingError = \<lparr>X = 0, Y = 0, Z = 0\<rparr>,
          servoTemp = \<lparr>X = 25, Y = 25, Z = 25\<rparr>,
          partCount = 0, totalCycles = 0, machineOnHours = 0, productionRate = 0,
          batteryVoltage = 3.6, temperature = 72, vibration = 0, currentAmps = 7,
          oilPressure = 50, oilLevel = 100,
          currentTool = Some 1,
          tools = Some (initializeTools CNC_MILL \<lparr>axisLimits = \<lparr>X = (0, 762), Y = (0, 406), Z = (0, 508)\<rparr>,
             spindlePower = 30, maxRPM = 8100, rapidTraverse = 1000, toolCapacity = 24\<rparr> r 1),
          toolChangeCount = 0, toolWear = 0,
          coolant = Some \<lparr>level = 100, pressure = 50, temperature_c = 72, flow = 0\<rparr>,
          tonnage = 0, maxTonnage = 0, ramPosition = 0, backGauge = 0, bendAngle = 0,
          laserPower = 0, maxLaserPower = 0, gasPressure = 0, resonatorTemp = 0, cutSpeed = 0,
          material = Some ''Aluminum 6061'', programRunning = Some ''O1234'', timestamp = c 0, rand = r,
          draws = 145, clock = c, reads = 1\<rparr>"
  by (simp add: haas_vf2_def init_def Let_def or_default_def is_cnc_def length_initializeTools)

lemmas run_defs = update_def Let_def tick_clock_def now_def truthy_def cycle_dispatch_def is_cnc_def
  updateCNCCycle_def phase_defs phaseCutting_def cutting_defs draw_def consume_def
  updateHealthSensors_def health_defs checkAlarms_def checkAlarmsCNC_def checkAlarmsTool_def
  alarm_if_cases updateWarnings_def current_warnings_def active_tool_def
  length_initializeTools nth_initializeTools make_tool_def

text \<open>
  The synthetic run passes through the phases in the order of the specification, one phase
  for each tick, and the part and cycle counters move from 0 to 1 on the tick spent in FINISH.
\<close>

lemma synthetic_cycle_phases:
  "map cyclePhase synthetic_cycle
     = [PH_SPINDLE_RAMP, PH_RAPID, PH_CUTTING, PH_RETRACT, PH_DWELL, PH_FINISH, PH_IDLE]"
  "map partCount synthetic_cycle = [0, 0, 0, 0, 0, 0, 1]"
  "map totalCycles synthetic_cycle = [0, 0, 0, 0, 0, 0, 1]"
  "map alarm synthetic_cycle = [None, None, None, None, None, None, None]"
  "map power_m synthetic_cycle = [True, True, True, True, True, True, True]"
  "map type_m synthetic_cycle = [CNC_MILL, CNC_MILL, CNC_MILL, CNC_MILL, CNC_MILL, CNC_MILL, CNC_MILL]"
  by (simp_all add: synthetic_cycle_def vf2_init_expand run_defs)

lemma synthetic_cycle_length: "length synthetic_cycle = 7"
  by (simp add: synthetic_cycle_def)

lemma synthetic_cycle_last: "synthetic_cycle ! 6 = update 20 (synthetic_cycle ! 5)"
  by (simp add: synthetic_cycle_def)

text \<open>
  The order of the phases. On a mill or lathe with the power on and no active alarm, one tick
  either keeps the cycle phase or moves it to the next phase in the order IDLE, SPINDLE_RAMP,
  RAPID, CUTTING, RETRACT, DWELL, FINISH, IDLE: no phase is skipped and none is entered out of
  order. A tick spent in FINISH always ends in IDLE with the phase timer at 0 and adds exactly
  1 to \<open>partCount\<close> and to \<open>totalCycles\<close>; a tick spent in any other phase leaves both counters
  alone. That a phase is ever left is no part of this statement.
\<close>

lemma cnc_phase_order:
  assumes "is_cnc (type_m s)" and "power_m s" and "\<not> truthy (alarm s)"
  shows "(cyclePhase (update dt s) = cyclePhase s
            \<or> cyclePhase (update dt s) = next_phase (cyclePhase s))
   \<and> (cyclePhase s = PH_FINISH \<longrightarrow>
        cyclePhase (update dt s) = PH_IDLE \<and> timeInPhase (update dt s) = 0
        \<and> partCount (update dt s) = partCount s + 1
        \<and> totalCycles (update dt s) = totalCycles s + 1)
   \<and> (cyclePhase s \<noteq> PH_FINISH \<longrightarrow>
        partCount (update dt s) = partCount s \<and> totalCycles (update dt s) = totalCycles s)"
proof -
  let ?e = "tick_entry dt s"
  have e: "type_m ?e = type_m s" "cyclePhase ?e = cyclePhase s" "partCount ?e = partCount s"
    "totalCycles ?e = totalCycles s"
    by (simp_all add: tick_entry_def)
  have "update dt s = updateWarnings (checkAlarms (updateHealthSensors dt (updateCNCCycle dt ?e)))"
    using assms by (simp add: update_running cycle_dispatch_def e)
  then have "driven (update dt s) = driven (updateCNCCycle dt ?e)"
    by (simp only: driven_after_cycle)
  note d = driven_fields [OF this]
  show ?thesis
    using updateCNCCycle_progress [of dt ?e] unfolding e d(4-7) .
qed

lemma cnc_phase_order_synthetic:
  "is_cnc (type_m (synthetic_cycle ! 5)) \<and> power_m (synthetic_cycle ! 5)
   \<and> \<not> truthy (alarm (synthetic_cycle ! 5))
   \<and> cyclePhase (synthetic_cycle ! 5) = PH_FINISH
   \<and> cyclePhase (update 20 (synthetic_cycle ! 5)) = PH_IDLE
   \<and> timeInPhase (update 20 (synthetic_cycle ! 5)) = 0
   \<and> partCount (update 20 (synthetic_cycle ! 5)) = 1
   \<and> totalCycles (update 20 (synthetic_cycle ! 5)) = 1"
proof -
  have n: "f (synthetic_cycle ! 5) = map f synthetic_cycle ! 5" for f :: "machine \<Rightarrow> 'b"
    by (simp add: synthetic_cycle_length)
  have h: "is_cnc (type_m (synthetic_cycle ! 5))" "power_m (synthetic_cycle ! 5)"
    "\<not> truthy (alarm (synthetic_cycle ! 5))" "cyclePhase (synthetic_cycle ! 5) = PH_FINISH"
    "partCount (synthetic_cycle ! 5) = 0" "totalCycles (synthetic_cycle ! 5) = 0"
    unfolding n synthetic_cycle_phases by (simp_all add: is_cnc_def truthy_def)
  show ?thesis
    using cnc_phase_order [OF h(1) h(2) h(3), of 20] h by simp
qed

text \<open>
  A cycle that starts while the spindle still turns at or above the new target never leaves
  SPINDLE_RAMP: \<open>_phaseSpindleRamp\<close> changes the phase only inside
  \<open>if (this.spindleSpeed < this.targetSpindleSpeed)\<close>, and nothing lowers the speed in that
  phase. Each tick keeps the phase, the speed, the target and the counters; over any number
  of ticks the machine stays there for as long as no alarm is set.
\<close>

lemma spindle_ramp_stuck:
  assumes "is_cnc (type_m s)" and "power_m s" and "\<not> truthy (alarm s)"
    and "cyclePhase s = PH_SPINDLE_RAMP" and "targetSpindleSpeed s \<le> spindleSpeed s"
  shows "cyclePhase (update dt s) = PH_SPINDLE_RAMP
    \<and> spindleSpeed (update dt s) = spindleSpeed s
    \<and> targetSpindleSpeed (update dt s) = targetSpindleSpeed s
    \<and> partCount (update dt s) = partCount s \<and> totalCycles (update dt s) = totalCycles s
    \<and> type_m (update dt s) = type_m s \<and> power_m (update dt s)"
proof -
  let ?e = "tick_entry dt s"
  have e: "type_m ?e = type_m s" "cyclePhase ?e = PH_SPINDLE_RAMP" "partCount ?e = partCount s"
    "totalCycles ?e = totalCycles s" "spindleSpeed ?e = spindleSpeed s"
    "targetSpindleSpeed ?e = targetSpindleSpeed s" "power_m ?e"
    using assms by (simp_all add: tick_entry_def)
  have c: "updateCNCCycle dt ?e = phaseSpindleRamp dt ?e"
    using e(2) by (simp add: updateCNCCycle_def)
  have r: "cyclePhase (phaseSpindleRamp dt ?e) = PH_SPINDLE_RAMP"
    "spindleSpeed (phaseSpindleRamp dt ?e) = spindleSpeed s"
    "targetSpindleSpeed (phaseSpindleRamp dt ?e) = targetSpindleSpeed s"
    "partCount (phaseSpindleRamp dt ?e) = partCount s"
    "totalCycles (phaseSpindleRamp dt ?e) = totalCycles s"
    "type_m (phaseSpindleRamp dt ?e) = type_m s" "power_m (phaseSpindleRamp dt ?e)"
    using e assms(5) by (simp_all add: phaseSpindleRamp_def Let_def)
  have "update dt s = updateWarnings (checkAlarms (updateHealthSensors dt (updateCNCCycle dt ?e)))"
    using assms(1-3) by (simp add: update_running cycle_dispatch_def e)
  then have "driven (update dt s) = driven (phaseSpindleRamp dt ?e)"
    by (simp only: driven_after_cycle c)
  note d = driven_fields [OF this]
  show ?thesis
    unfolding d using r by simp
qed

lemma spindle_ramp_stuck_run:
  assumes "is_cnc (type_m s)" and "power_m s" and "\<not> truthy (alarm s)"
    and "cyclePhase s = PH_SPINDLE_RAMP" and "targetSpindleSpeed s \<le> spindleSpeed s"
    and "\<forall>t \<in> set (trace (map Update dts) s). \<not> truthy (alarm t)"
  shows "cyclePhase (run (map Update dts) s) = PH_SPINDLE_RAMP
    \<and> partCount (run (map Update dts) s) = partCount s
    \<and> totalCycles (run (map Update dts) s) = totalCycles s"
  using assms
proof (induction dts arbitrary: s)
  case Nil
  then show ?case by simp
next
  case (Cons dt dts)
  note st = spindle_ramp_stuck [OF Cons.prems(1-5), of dt]
  have a: "\<not> truthy (alarm (update dt s))"
    and rest: "\<forall>t \<in> set (trace (map Update dts) (update dt s)). \<not> truthy (alarm t)"
    using Cons.prems(6) by simp_all
  have "cyclePhase (run (map Update dts) (update dt s)) = PH_SPINDLE_RAMP
    \<and> partCount (run (map Update dts) (update dt s)) = partCount (update dt s)
    \<and> totalCycles (run (map Update dts) (update dt s)) = totalCycles (update dt s)"
  proof (rule Cons.IH)
    show "is_cnc (type_m (update dt s))" using st Cons.prems(1) by simp
    show "power_m (update dt s)" using st by simp
    show "\<not> truthy (alarm (update dt s))" by (fact a)
    show "cyclePhase (update dt s) = PH_SPINDLE_RAMP" using st by simp
    show "targetSpindleSpeed (update dt s) \<le> spindleSpeed (update dt s)"
      using st Cons.prems(5) by simp
    show "\<forall>t \<in> set (trace (map Update dts) (update dt s)). \<not> truthy (alarm t)" by (fact rest)
  qed
  with st show ?case by simp
qed

lemma replicate_21:
  "replicate 21 x = [x, x, x, x, x, x, x, x, x, x, x, x, x, x, x, x, x, x, x, x, x]"
  by (simp add: numeral_eq_Suc)

lemma second_start_fields:
  "(let S = second_start
    in (cyclePhase S, partCount S, totalCycles S, spindleSpeed S, targetSpindleSpeed S,
        alarm S, power_m S, type_m S))
   = (PH_SPINDLE_RAMP, 1, 1, 4550, 3000, None, True, CNC_MILL)"
  by (simp add: second_start_def replicate_21 vf2_init_expand restart_draws_def run_defs)


text \<open>
  C7 fails on the VF-2 of the fleet at the tick period of the simulation loop. With the
  cycle-starting draws of \<open>restart_draws\<close> the first cycle runs through all phases and counts
  one part; its target speed is 5550. One idle tick later the spindle is at 4550 and the second
  cycle starts with target 3000: the machine is in SPINDLE_RAMP after 21 ticks and the next tick
  leaves it there, with speed, target and \<open>partCount\<close> unchanged.
\<close>

theorem vf2_hangs_in_spindle_ramp:
  "cyclePhase second_start = PH_SPINDLE_RAMP \<and> partCount second_start = 1
   \<and> alarm second_start = None \<and> power_m second_start
   \<and> spindleSpeed second_start = 4550 \<and> targetSpindleSpeed second_start = 3000
   \<and> cyclePhase (update 2 second_start) = PH_SPINDLE_RAMP
   \<and> spindleSpeed (update 2 second_start) = 4550
   \<and> targetSpindleSpeed (update 2 second_start) = 3000
   \<and> partCount (update 2 second_start) = 1"
proof -
  have f: "cyclePhase second_start = PH_SPINDLE_RAMP" "partCount second_start = 1"
    "totalCycles second_start = 1" "spindleSpeed second_start = 4550"
    "targetSpindleSpeed second_start = 3000" "alarm second_start = None" "power_m second_start"
    "type_m second_start = CNC_MILL"
    using second_start_fields unfolding Let_def by simp_all
  have "cyclePhase (update 2 second_start) = PH_SPINDLE_RAMP
    \<and> spindleSpeed (update 2 second_start) = spindleSpeed second_start
    \<and> targetSpindleSpeed (update 2 second_start) = targetSpindleSpeed second_start
    \<and> partCount (update 2 second_start) = partCount second_start
    \<and> totalCycles (update 2 second_start) = totalCycles second_start
    \<and> type_m (update 2 second_start) = type_m second_start \<and> power_m (update 2 second_start)"
    by (rule spindle_ramp_stuck) (simp_all add: f is_cnc_def truthy_def)
  with f show ?thesis by simp
qed

subsection \<open>The laser\<close>

lemmas laser_run_defs = update_def Let_def tick_clock_def now_def truthy_def cycle_dispatch_def is_cnc_def
  updateLaserCycle_def laser_defs draw_def consume_def
  updateHealthSensors_def health_defs checkAlarms_def checkAlarmsLaser_def
  alarm_if_cases updateWarnings_def current_warnings_def active_tool_def setAlarm_def slice_last_def

text \<open>
  C3 fails on the laser. The two tests of the laser block of \<open>_checkAlarms\<close> are separate
  statements, so one tick can set two alarms: entered with no alarm and an empty history, the
  tick below appends LASER_POWER_FAULT and RESONATOR_OVERHEAT to the history and leaves the
  second, the one of lower priority, as the active alarm.
\<close>

theorem laser_two_alarms_in_one_tick:
  "power_m overheated_laser \<and> alarm overheated_laser = None \<and> alarmHistory overheated_laser = []
   \<and> map message (alarmHistory (update 2 overheated_laser)) = [''LASER_POWER_FAULT'', ''RESONATOR_OVERHEAT'']
   \<and> alarm (update 2 overheated_laser) = Some ''RESONATOR_OVERHEAT''"
  by (simp add: overheated_laser_def laser_init_expand laser_run_defs)

lemma checkAlarms_laser_quiet:
  "type_m t = LASER \<Longrightarrow> \<not> spindleLoad t > 95 \<Longrightarrow> \<not> resonatorTemp t > 85 \<Longrightarrow> checkAlarms t = t"
  by (simp add: checkAlarms_def is_cnc_def checkAlarmsLaser_def alarm_if_cases Let_def)

text \<open>One tick of a laser whose draws are all 0 and whose resonator is below 84 degrees.\<close>

lemma laser_drift_step:
  assumes "type_m s = LASER" "power_m s" "alarm s = None" "rand s = (\<lambda>n. 0)" "maxLaserPower s = 6000"
    and "cyclePhase s = PH_IDLE \<or> (cyclePhase s = PH_RUNNING \<and> laserPower s = 2000)"
    and "resonatorTemp s \<le> 84"
  shows "type_m (update dt s) = LASER \<and> power_m (update dt s) \<and> alarm (update dt s) = None
    \<and> rand (update dt s) = (\<lambda>n. 0) \<and> maxLaserPower (update dt s) = 6000
    \<and> (cyclePhase (update dt s) = PH_IDLE \<or> (cyclePhase (update dt s) = PH_RUNNING \<and> laserPower (update dt s) = 2000))
    \<and> resonatorTemp (update dt s) = resonatorTemp s + 2 / 15
    \<and> X (axisPositions (update dt s)) = X (axisPositions s) - 5
    \<and> specs (update dt s) = specs s"
proof -
  let ?e = "tick_entry dt s"
  let ?c = "updateLaserCycle dt ?e"
  let ?h = "updateHealthSensors dt ?c"
  have e: "type_m ?e = LASER" "power_m ?e" "alarm ?e = None" "rand ?e = (\<lambda>n. 0)" "maxLaserPower ?e = 6000"
    "cyclePhase ?e = PH_IDLE \<or> (cyclePhase ?e = PH_RUNNING \<and> laserPower ?e = 2000)"
    "resonatorTemp ?e = resonatorTemp s" "axisPositions ?e = axisPositions s" "specs ?e = specs s"
    using assms by (simp_all add: tick_entry_def)
  have disp: "cycle_dispatch dt ?e = ?c"
    using e(1) by (simp add: cycle_dispatch_def is_cnc_def)
  have c: "type_m ?c = LASER" "power_m ?c" "alarm ?c = None" "maxLaserPower ?c = 6000" "specs ?c = specs s"
    using kept_fields [OF kept_updateLaserCycle [of dt ?e]] e by simp_all
  have cr: "rand ?c = (\<lambda>n. 0) \<and> spindleLoad ?c = 100 / 3
      \<and> (cyclePhase ?c = PH_IDLE \<or> (cyclePhase ?c = PH_RUNNING \<and> laserPower ?c = 2000))
      \<and> resonatorTemp ?c = resonatorTemp s + 2 / 15 \<and> X (axisPositions ?c) = X (axisPositions s) - 5"
    using e(4-8)
    by (auto simp add: updateLaserCycle_def laser_defs Let_def draw_def consume_def)
  have h: "type_m ?h = LASER" "power_m ?h" "alarm ?h = None" "maxLaserPower ?h = 6000" "specs ?h = specs s"
    using kept_fields [OF kept_updateHealthSensors [of dt ?c]] c by simp_all
  have hd: "cyclePhase ?h = cyclePhase ?c" "axisPositions ?h = axisPositions ?c"
    using driven_fields [OF driven_updateHealthSensors [of dt ?c]] by simp_all
  have hr: "rand ?h = rand ?c" "spindleLoad ?h = spindleLoad ?c" "resonatorTemp ?h = resonatorTemp ?c"
    "laserPower ?h = laserPower ?c"
    by (simp_all add: updateHealthSensors_def health_defs Let_def consume_def)
  have quiet: "checkAlarms ?h = ?h"
    using h(1) hr cr assms(7) by (intro checkAlarms_laser_quiet) simp_all
  have upd: "update dt s = updateWarnings ?h"
    using assms(2,3) by (simp add: update_running truthy_def disp quiet)
  show ?thesis
    unfolding upd using h hd hr cr by (simp add: updateWarnings_def)
qed

lemma laser_drift_run:
  assumes "type_m s = LASER" "power_m s" "alarm s = None" "rand s = (\<lambda>n. 0)" "maxLaserPower s = 6000"
    and "cyclePhase s = PH_IDLE \<or> (cyclePhase s = PH_RUNNING \<and> laserPower s = 2000)"
    and "resonatorTemp s + (2 / 15) * real k \<le> 84 + 2 / 15"
  shows "X (axisPositions (run (replicate k (Update dt)) s)) = X (axisPositions s) - 5 * real k
    \<and> specs (run (replicate k (Update dt)) s) = specs s"
  using assms
proof (induction k arbitrary: s)
  case 0
  then show ?case by simp
next
  case (Suc k)
  have d: "(2 / 15) * real (Suc k) = 2 / 15 + (2 / 15) * real k"
    by (simp add: distrib_left)
  have k: "0 \<le> real k" by simp
  have p: "resonatorTemp s + (2 / 15 + (2 / 15) * real k) \<le> 84 + 2 / 15"
    using Suc.prems(7) unfolding d .
  have t: "resonatorTemp s \<le> 84"
    using k p by linarith
  note st = laser_drift_step [OF Suc.prems(1-6) t, of dt]
  have "X (axisPositions (run (replicate k (Update dt)) (update dt s))) = X (axisPositions (update dt s)) - 5 * real k
    \<and> specs (run (replicate k (Update dt)) (update dt s)) = specs (update dt s)"
  proof (intro Suc.IH)
    have "resonatorTemp (update dt s) = resonatorTemp s + 2 / 15"
      using st by blast
    then show "resonatorTemp (update dt s) + (2 / 15) * real k \<le> 84 + 2 / 15"
      using p by linarith
  qed (use st in simp_all)
  with st show ?case by (simp add: algebra_simps)
qed

text \<open>
  C1 fails on the laser. The running block of \<open>_updateLaserCycle\<close> moves X and Y by a random
  step in \<open>[-5, 5)\<close> on every tick and never compares them with the axis limits. From the
  constructed state of the fleet's fibre laser (X travel 0 to 1500, X = 750), 151 ticks of
  2 seconds with every draw 0 leave X at -5, below the lower limit 0.
\<close>

theorem laser_leaves_axis_limits:
  "X (axisPositions (run (replicate 151 (Update 2)) (fiber_laser (\<lambda>n. 0) (\<lambda>n. n)))) = - 5
   \<and> fst (X (axisLimits (specs (run (replicate 151 (Update 2)) (fiber_laser (\<lambda>n. 0) (\<lambda>n. n)))))) = 0"
proof -
  have "X (axisPositions (run (replicate 151 (Update 2)) (fiber_laser (\<lambda>n. 0) (\<lambda>n. n))))
      = X (axisPositions (fiber_laser (\<lambda>n. 0) (\<lambda>n. n))) - 5 * real 151
    \<and> specs (run (replicate 151 (Update 2)) (fiber_laser (\<lambda>n. 0) (\<lambda>n. n))) = specs (fiber_laser (\<lambda>n. 0) (\<lambda>n. n))"
    by (rule laser_drift_run) (simp_all add: laser_init_expand)
  then show ?thesis by (simp add: laser_init_expand)
qed

subsection \<open>The warnings list\<close>

text \<open>No step of the tick reads the warnings list: each commutes with overwriting it.\<close>

lemma forget_basic:
  "consume (s\<lparr>warnings := w\<rparr>) = (consume s)\<lparr>warnings := w\<rparr>"
  "tick_entry dt (s\<lparr>warnings := w\<rparr>) = (tick_entry dt s)\<lparr>warnings := w\<rparr>"
  "setAlarm c msg (s\<lparr>warnings := w\<rparr>) = (setAlarm c msg s)\<lparr>warnings := w\<rparr>"
  "draw (s\<lparr>warnings := w\<rparr>) = draw s"
  by (simp_all add: consume_def tick_entry_def setAlarm_def draw_def now_def tick_clock_def Let_def)

lemma forget_cutting_steps:
  "cutting_feed_ramp dt (s\<lparr>warnings := w\<rparr>) = (cutting_feed_ramp dt s)\<lparr>warnings := w\<rparr>"
  "cutting_z_descent dt (s\<lparr>warnings := w\<rparr>) = (cutting_z_descent dt s)\<lparr>warnings := w\<rparr>"
  "cutting_spindle_load (s\<lparr>warnings := w\<rparr>) = (cutting_spindle_load s)\<lparr>warnings := w\<rparr>"
  "cutting_tool_wear (s\<lparr>warnings := w\<rparr>) = (cutting_tool_wear s)\<lparr>warnings := w\<rparr>"
  "cutting_spindle_hours dt (s\<lparr>warnings := w\<rparr>) = (cutting_spindle_hours dt s)\<lparr>warnings := w\<rparr>"
  "cutting_current_tool (s\<lparr>warnings := w\<rparr>) = (cutting_current_tool s)\<lparr>warnings := w\<rparr>"
  "cutting_coolant (s\<lparr>warnings := w\<rparr>) = (cutting_coolant s)\<lparr>warnings := w\<rparr>"
  "cutting_servo (s\<lparr>warnings := w\<rparr>) = (cutting_servo s)\<lparr>warnings := w\<rparr>"
  "cutting_completion (s\<lparr>warnings := w\<rparr>) = (cutting_completion s)\<lparr>warnings := w\<rparr>"
  by (simp_all add: cutting_defs Let_def consume_def draw_def active_tool_warnings
      split: option.splits prod.splits)

lemma forget_phaseCutting:
  "phaseCutting dt (s\<lparr>warnings := w\<rparr>) = (phaseCutting dt s)\<lparr>warnings := w\<rparr>"
proof -
  have "s\<lparr>warnings := w, execution := EX_RUNNING\<rparr> = (s\<lparr>execution := EX_RUNNING\<rparr>)\<lparr>warnings := w\<rparr>"
    by simp
  then show ?thesis
    unfolding phaseCutting_def by (simp only: forget_cutting_steps)
qed

lemma forget_startNewCycle:
  "startNewCycle (s\<lparr>warnings := w\<rparr>) = (startNewCycle s)\<lparr>warnings := w\<rparr>"
  by (simp add: startNewCycle_def Let_def consume_def draw_def)

lemma forget_phaseIdle:
  "phaseIdle dt (s\<lparr>warnings := w\<rparr>) = (phaseIdle dt s)\<lparr>warnings := w\<rparr>"
proof -
  define d where "d = (\<lambda>t::machine.
     case coolant t of
       None \<Rightarrow> t\<lparr>execution := EX_IDLE,
                 spindleSpeed := max 0 (spindleSpeed t - 500 * dt),
                 feedRate := max 0 (feedRate t - 500 * dt),
                 spindleLoad := max 0 (spindleLoad t - 5 * dt)\<rparr>
     | Some c \<Rightarrow> t\<lparr>execution := EX_IDLE,
                 spindleSpeed := max 0 (spindleSpeed t - 500 * dt),
                 feedRate := max 0 (feedRate t - 500 * dt),
                 spindleLoad := max 0 (spindleLoad t - 5 * dt),
                 coolant := Some (c\<lparr>level := min 100 (level c + 0.1), flow := 0\<rparr>)\<rparr>)"
  have p: "phaseIdle dt t = (if draw (d t) < 0.05 then startNewCycle (consume (d t)) else consume (d t))"
    for t
    by (cases "coolant t") (simp_all add: phaseIdle_def Let_def d_def)
  have c: "d (s\<lparr>warnings := w\<rparr>) = (d s)\<lparr>warnings := w\<rparr>"
    by (cases "coolant s") (simp_all add: d_def)
  show ?thesis
    unfolding p c by (simp add: forget_basic forget_startNewCycle)
qed

lemma forget_phaseRetract:
  "phaseRetract dt (s\<lparr>warnings := w\<rparr>) = (phaseRetract dt s)\<lparr>warnings := w\<rparr>"
  by (simp add: phaseRetract_def Let_def)

lemma forget_phaseDwell:
  "phaseDwell dt (s\<lparr>warnings := w\<rparr>) = (phaseDwell dt s)\<lparr>warnings := w\<rparr>"
  by (simp add: phaseDwell_def Let_def)

lemma forget_phaseRapid:
  "phaseRapid dt (s\<lparr>warnings := w\<rparr>) = (phaseRapid dt s)\<lparr>warnings := w\<rparr>"
  by (simp add: phaseRapid_def Let_def consume_def draw_def)

lemma forget_phaseSpindleRamp:
  "phaseSpindleRamp dt (s\<lparr>warnings := w\<rparr>) = (phaseSpindleRamp dt s)\<lparr>warnings := w\<rparr>"
  by (cases s) (simp add: phaseSpindleRamp_def Let_def)

lemma active_tool_cong:
  "tools a = tools b \<Longrightarrow> currentTool a = currentTool b \<Longrightarrow> active_tool a = active_tool b"
  by (simp add: active_tool_def split: option.splits)

lemma forget_phaseFinish:
  "phaseFinish dt (s\<lparr>warnings := w\<rparr>) = (phaseFinish dt s)\<lparr>warnings := w\<rparr>"
proof -
  have a: "active_tool (s\<lparr>warnings := w, execution := e, partCount := p, totalCycles := c,
      spindleLoad := l, feedRate := f\<rparr>) = active_tool s" for e p c l f
    by (rule active_tool_cong) simp_all
  have b: "active_tool (s\<lparr>execution := e, partCount := p, totalCycles := c,
      spindleLoad := l, feedRate := f\<rparr>) = active_tool s" for e p c l f
    by (rule active_tool_cong) simp_all
  show ?thesis
    by (cases "active_tool s") (simp_all add: phaseFinish_def Let_def a b split: prod.splits)
qed

lemmas forget_phases = forget_phaseSpindleRamp forget_phaseRapid forget_phaseRetract
  forget_phaseDwell forget_phaseFinish

lemma forget_updateCNCCycle:
  "updateCNCCycle dt (s\<lparr>warnings := w\<rparr>) = (updateCNCCycle dt s)\<lparr>warnings := w\<rparr>"
  by (cases "cyclePhase s")
     (simp_all add: updateCNCCycle_def forget_phases forget_phaseIdle forget_phaseCutting)

lemma forget_press_steps:
  "press_start (s\<lparr>warnings := w\<rparr>) = (press_start s)\<lparr>warnings := w\<rparr>"
  "press_ram dt (s\<lparr>warnings := w\<rparr>) = (press_ram dt s)\<lparr>warnings := w\<rparr>"
  "press_completion (s\<lparr>warnings := w\<rparr>) = (press_completion s)\<lparr>warnings := w\<rparr>"
  "press_idle (s\<lparr>warnings := w\<rparr>) = (press_idle s)\<lparr>warnings := w\<rparr>"
  by (simp_all add: press_defs Let_def consume_def draw_def)

lemma forget_updatePressCycle:
  "updatePressCycle dt (s\<lparr>warnings := w\<rparr>) = (updatePressCycle dt s)\<lparr>warnings := w\<rparr>"
  by (simp add: updatePressCycle_def Let_def forget_press_steps)

lemma forget_laser_steps:
  "laser_start (s\<lparr>warnings := w\<rparr>) = (laser_start s)\<lparr>warnings := w\<rparr>"
  "laser_power_ramp (s\<lparr>warnings := w\<rparr>) = (laser_power_ramp s)\<lparr>warnings := w\<rparr>"
  "laser_feed_ramp dt (s\<lparr>warnings := w\<rparr>) = (laser_feed_ramp dt s)\<lparr>warnings := w\<rparr>"
  "laser_xy_movement (s\<lparr>warnings := w\<rparr>) = (laser_xy_movement s)\<lparr>warnings := w\<rparr>"
  "laser_temperature (s\<lparr>warnings := w\<rparr>) = (laser_temperature s)\<lparr>warnings := w\<rparr>"
  "laser_completion (s\<lparr>warnings := w\<rparr>) = (laser_completion s)\<lparr>warnings := w\<rparr>"
  "laser_idle (s\<lparr>warnings := w\<rparr>) = (laser_idle s)\<lparr>warnings := w\<rparr>"
  by (simp_all add: laser_defs Let_def consume_def draw_def)

lemma forget_updateLaserCycle:
  "updateLaserCycle dt (s\<lparr>warnings := w\<rparr>) = (updateLaserCycle dt s)\<lparr>warnings := w\<rparr>"
  by (simp add: updateLaserCycle_def Let_def forget_laser_steps)

lemma forget_cycle_dispatch:
  "cycle_dispatch dt (s\<lparr>warnings := w\<rparr>) = (cycle_dispatch dt s)\<lparr>warnings := w\<rparr>"
  by (simp add: cycle_dispatch_def forget_updateCNCCycle forget_updatePressCycle forget_updateLaserCycle)

lemma forget_health_steps:
  "health_temperature (s\<lparr>warnings := w\<rparr>) = (health_temperature s)\<lparr>warnings := w\<rparr>"
  "health_battery dt (s\<lparr>warnings := w\<rparr>) = (health_battery dt s)\<lparr>warnings := w\<rparr>"
  "health_oil (s\<lparr>warnings := w\<rparr>) = (health_oil s)\<lparr>warnings := w\<rparr>"
  "health_servo_temp (s\<lparr>warnings := w\<rparr>) = (health_servo_temp s)\<lparr>warnings := w\<rparr>"
  by (simp_all add: health_defs Let_def consume_def draw_def)

lemma forget_updateHealthSensors:
  "updateHealthSensors dt (s\<lparr>warnings := w\<rparr>) = (updateHealthSensors dt s)\<lparr>warnings := w\<rparr>"
  by (simp add: updateHealthSensors_def forget_health_steps)

lemma forget_alarm_if:
  assumes "cond' = cond"
    and "\<And>t. rest' (t\<lparr>warnings := w\<rparr>) = (rest t)\<lparr>warnings := w\<rparr>"
  shows "alarm_if cond' p c msg rest' (s\<lparr>warnings := w\<rparr>) = (alarm_if cond p c msg rest s)\<lparr>warnings := w\<rparr>"
  using assms by (simp add: alarm_if_cases forget_basic)

lemma forget_checkAlarmsTool:
  "checkAlarmsTool (s\<lparr>warnings := w\<rparr>) = (checkAlarmsTool s)\<lparr>warnings := w\<rparr>"
  by (simp add: checkAlarmsTool_def active_tool_warnings forget_alarm_if split: option.splits)

lemma forget_checkAlarmsCNC:
  "checkAlarmsCNC (s\<lparr>warnings := w\<rparr>) = (checkAlarmsCNC s)\<lparr>warnings := w\<rparr>"
  unfolding checkAlarmsCNC_def
  by (intro forget_alarm_if forget_checkAlarmsTool) simp_all

lemma forget_checkAlarms:
  "checkAlarms (s\<lparr>warnings := w\<rparr>) = (checkAlarms s)\<lparr>warnings := w\<rparr>"
proof -
  have p: "checkAlarmsPress (t\<lparr>warnings := w\<rparr>) = (checkAlarmsPress t)\<lparr>warnings := w\<rparr>" for t
    unfolding checkAlarmsPress_def by (intro forget_alarm_if) simp_all
  have l1: "alarm_if (95 < spindleLoad (t\<lparr>warnings := w\<rparr>)) 0.1 None ''LASER_POWER_FAULT'' (\<lambda>t. t) (t\<lparr>warnings := w\<rparr>)
      = (alarm_if (95 < spindleLoad t) 0.1 None ''LASER_POWER_FAULT'' (\<lambda>t. t) t)\<lparr>warnings := w\<rparr>" for t
    by (intro forget_alarm_if) simp_all
  have l: "checkAlarmsLaser (t\<lparr>warnings := w\<rparr>) = (checkAlarmsLaser t)\<lparr>warnings := w\<rparr>" for t
    unfolding checkAlarmsLaser_def Let_def l1 by (intro forget_alarm_if) simp_all
  have ty: "type_m (checkAlarmsCNC t) = type_m t" "type_m (checkAlarmsPress t) = type_m t" for t
    using driven_fields(1) [OF driven_checkAlarms]
    by (simp_all add: checkAlarmsCNC_inv [where P = "\<lambda>u. type_m u = type_m t"]
        checkAlarmsPress_def alarm_if_cases consume_def setAlarm_def tick_clock_def Let_def)
  show ?thesis
    by (simp add: checkAlarms_def Let_def forget_checkAlarmsCNC p l ty)
qed

lemma updateWarnings_forgets: "updateWarnings (s\<lparr>warnings := w\<rparr>) = updateWarnings s"
  by (simp add: updateWarnings_def current_warnings_def active_tool_warnings)

lemma update_forgets_warnings:
  assumes "power_m s" and "\<not> truthy (alarm s)"
  shows "update dt (s\<lparr>warnings := w\<rparr>) = update dt s"
proof -
  have "update dt (s\<lparr>warnings := w\<rparr>) =
      updateWarnings (checkAlarms (updateHealthSensors dt (cycle_dispatch dt (tick_entry dt (s\<lparr>warnings := w\<rparr>)))))"
    using assms by (simp add: update_running)
  also have "\<dots> = updateWarnings (checkAlarms (updateHealthSensors dt (cycle_dispatch dt (tick_entry dt s))))"
    by (simp only: forget_basic forget_cycle_dispatch forget_updateHealthSensors forget_checkAlarms
        updateWarnings_forgets)
  also have "\<dots> = update dt s"
    using assms by (simp add: update_running)
  finally show ?thesis .
qed

text \<open>The list of \<open>_updateWarnings\<close> with its five tests written out.\<close>

lemma current_warnings_explicit:
  "current_warnings t =
     (if batteryVoltage t < 3.2 then [battery_warning] else [])
     @ (case coolant t of None \<Rightarrow> [] | Some c \<Rightarrow> if level c < 20 then [coolant_warning] else [])
     @ (case tools t of None \<Rightarrow> []
        | Some ts \<Rightarrow>
            (case currentTool t of None \<Rightarrow> []
             | Some n \<Rightarrow> if n \<noteq> 0 \<and> n - 1 < length ts \<and> currentLife (ts ! (n - 1)) < 15
                        then [tool_warning n] else []))
     @ (if spindleTemp t > 75 then [temp_warning] else [])
     @ (if spindleLoad t > 85 then [load_warning] else [])"
  by (simp add: current_warnings_def active_tool_def split: option.splits)

text \<open>The example machines, evaluated.\<close>

lemma running_laser_facts:
  "power_m running_laser" "\<not> truthy (alarm running_laser)" "warnings running_laser = [load_warning]"
  "warnings (update 2 running_laser) = [load_warning]" "spindleLoad (update 2 running_laser) = 90"
  by (simp_all add: running_laser_def laser_init_expand laser_run_defs)

lemma worn_vf2_facts:
  "power_m worn_vf2" "\<not> truthy (alarm worn_vf2)" "warnings worn_vf2 = [battery_warning]"
  "warnings (update 2 worn_vf2) = [tool_warning 1]"
  by (simp_all add: worn_vf2_def vf2_init_expand run_defs)

lemma off_laser_facts:
  "\<not> power_m switched_off_laser"
  "warnings (update 2 switched_off_laser) = [load_warning]"
  "spindleLoad (update 2 switched_off_laser) = 0"
  "power_m alarmed_laser" "truthy (alarm alarmed_laser)"
  "warnings (update 2 alarmed_laser) = [load_warning]"
  "spindleLoad (update 2 alarmed_laser) = 0"
  "current_warnings (update 2 switched_off_laser) = []"
  "current_warnings (update 2 alarmed_laser) = []"
  by (simp_all add: alarmed_laser_def switched_off_laser_def running_laser_def laser_init_expand
      laser_run_defs setPower_def injectAlarm_def priv_clearAlarm_def current_warnings_def
      active_tool_def)

text \<open>
  C4, as amended. On a call of \<open>update\<close> entered with the power on and no active alarm, the
  warnings list after the call is made of five tests on the state after the call, in this
  order: battery voltage below 3.2, coolant level below 20 (on a machine with coolant), life
  of the active tool below 15 (on a machine with tools, for a tool number that names a tool of
  the carousel), spindle temperature above 75, spindle load above 85; each test that holds
  contributes its one entry and nothing else is in the list. The list held before the call
  has no influence: overwriting it with any list \<open>w\<close> before the call gives the same state
  after the call. On a call entered with the power off or with an alarm active, \<open>update\<close>
  returns early and the warnings list stays as it was.
\<close>

theorem warnings_recomputed:
  "(power_m s \<and> \<not> truthy (alarm s) \<longrightarrow>
      warnings (update dt s) =
        (if batteryVoltage (update dt s) < 3.2 then [battery_warning] else [])
        @ (case coolant (update dt s) of None \<Rightarrow> []
           | Some c \<Rightarrow> if level c < 20 then [coolant_warning] else [])
        @ (case tools (update dt s) of None \<Rightarrow> []
           | Some ts \<Rightarrow>
               (case currentTool (update dt s) of None \<Rightarrow> []
                | Some n \<Rightarrow>
                    if n \<noteq> 0 \<and> n - 1 < length ts \<and> currentLife (ts ! (n - 1)) < 15
                    then [tool_warning n] else []))
        @ (if spindleTemp (update dt s) > 75 then [temp_warning] else [])
        @ (if spindleLoad (update dt s) > 85 then [load_warning] else [])
      \<and> update dt (s\<lparr>warnings := w\<rparr>) = update dt s)
   \<and> (\<not> power_m s \<or> truthy (alarm s) \<longrightarrow> warnings (update dt s) = warnings s)"
proof (intro conjI impI)
  assume a: "power_m s \<and> \<not> truthy (alarm s)"
  then have "update dt s =
      updateWarnings (checkAlarms (updateHealthSensors dt (cycle_dispatch dt (tick_entry dt s))))"
    by (simp add: update_running)
  then have "warnings (update dt s) = current_warnings (update dt s)"
    by (simp add: current_warnings_updateWarnings) (simp add: updateWarnings_def)
  then show "warnings (update dt s) =
        (if batteryVoltage (update dt s) < 3.2 then [battery_warning] else [])
        @ (case coolant (update dt s) of None \<Rightarrow> []
           | Some c \<Rightarrow> if level c < 20 then [coolant_warning] else [])
        @ (case tools (update dt s) of None \<Rightarrow> []
           | Some ts \<Rightarrow>
               (case currentTool (update dt s) of None \<Rightarrow> []
                | Some n \<Rightarrow>
                    if n \<noteq> 0 \<and> n - 1 < length ts \<and> currentLife (ts ! (n - 1)) < 15
                    then [tool_warning n] else []))
        @ (if spindleTemp (update dt s) > 75 then [temp_warning] else [])
        @ (if spindleLoad (update dt s) > 85 then [load_warning] else [])"
    by (simp only: current_warnings_explicit)
  from a show "update dt (s\<lparr>warnings := w\<rparr>) = update dt s"
    by (simp add: update_forgets_warnings)
next
  assume a: "\<not> power_m s \<or> truthy (alarm s)"
  show "warnings (update dt s) = warnings s"
  proof (cases "power_m s")
    case False
    then show ?thesis by (simp add: update_def Let_def tick_clock_def)
  next
    case True
    with a have "truthy (alarm s)" by simp
    with True show ?thesis
      by (simp add: update_def Let_def tick_clock_def priv_clearAlarm_def consume_def)
  qed
qed

text \<open>
  The running laser holds the HIGH_LOAD entry before the tick and once, not twice, after it;
  the worn VF-2 loses its stale battery entry and gains the entry of its tool.
\<close>

theorem warnings_recomputed_witness:
  "power_m running_laser \<and> \<not> truthy (alarm running_laser)
   \<and> warnings running_laser = [load_warning]
   \<and> warnings (update 2 running_laser) = [load_warning]
   \<and> update 2 (running_laser\<lparr>warnings := [battery_warning, temp_warning]\<rparr>) = update 2 running_laser
   \<and> power_m worn_vf2 \<and> \<not> truthy (alarm worn_vf2)
   \<and> warnings worn_vf2 = [battery_warning]
   \<and> warnings (update 2 worn_vf2) = [tool_warning 1]
   \<and> \<not> power_m switched_off_laser
   \<and> warnings (update 2 switched_off_laser) = warnings switched_off_laser
   \<and> power_m alarmed_laser \<and> truthy (alarm alarmed_laser)
   \<and> warnings (update 2 alarmed_laser) = warnings alarmed_laser"
  using warnings_recomputed [of running_laser 2 "[battery_warning, temp_warning]"]
    warnings_recomputed [of worn_vf2 2]
    warnings_recomputed [of switched_off_laser 2]
    warnings_recomputed [of alarmed_laser 2]
  by (simp add: running_laser_facts worn_vf2_facts off_laser_facts)

text \<open>
  C4 as stated fails on both early returns of \<open>update\<close>. A tick with the power off zeroes the
  spindle load and returns before the warnings are recomputed: the list keeps the HIGH_LOAD entry
  of the tick before, while no test holds in the state after the call. With the power on again
  and an alarm injected, the next tick returns on the alarm path and the stale entry is still
  there.
\<close>

theorem stale_warnings_counterexample:
  "\<not> power_m switched_off_laser
   \<and> warnings (update 2 switched_off_laser) = [load_warning]
   \<and> \<not> 85 < spindleLoad (update 2 switched_off_laser)
   \<and> current_warnings (update 2 switched_off_laser) = []
   \<and> power_m alarmed_laser \<and> truthy (alarm alarmed_laser)
   \<and> warnings (update 2 alarmed_laser) = [load_warning]
   \<and> \<not> 85 < spindleLoad (update 2 alarmed_laser)
   \<and> current_warnings (update 2 alarmed_laser) = []"
  by (simp add: off_laser_facts)

subsection \<open>The entries of the alarm history\<close>

lemma slice_last_append: "slice_last n (slice_last n xs @ ys) = slice_last n (xs @ ys)"
  by (cases "length xs \<le> n") (simp_all add: slice_last_def add.commute)

text \<open>What one evaluation of the alarms may do to a history \<open>h\<close>.\<close>

lemma appended_step:
  assumes "k = h \<or> (\<exists>new. new \<noteq> [] \<and> (\<forall>e \<in> set new. \<not> cleared e) \<and> k = slice_last 20 (h @ new))"
    and "\<not> cleared e"
  shows "\<exists>new. new \<noteq> [] \<and> (\<forall>e \<in> set new. \<not> cleared e) \<and> slice_last 20 (k @ [e]) = slice_last 20 (h @ new)"
  using assms(1)
proof
  assume "k = h"
  then show ?thesis using assms(2) by (intro exI [of _ "[e]"]) simp
next
  assume "\<exists>new. new \<noteq> [] \<and> (\<forall>e \<in> set new. \<not> cleared e) \<and> k = slice_last 20 (h @ new)"
  then obtain new where n: "new \<noteq> []" "\<forall>e \<in> set new. \<not> cleared e" "k = slice_last 20 (h @ new)"
    by blast
  have "slice_last 20 (k @ [e]) = slice_last 20 (h @ (new @ [e]))"
    unfolding n(3) by (simp add: slice_last_append)
  then show ?thesis using n(2) assms(2) by (intro exI [of _ "new @ [e]"]) simp
qed

lemma update_history_appended:
  assumes "power_m s" and "\<not> truthy (alarm s)"
  shows "alarmHistory (update dt s) = alarmHistory s
    \<or> (\<exists>new. new \<noteq> [] \<and> (\<forall>e \<in> set new. \<not> cleared e)
          \<and> alarmHistory (update dt s) = slice_last 20 (alarmHistory s @ new))"
proof -
  let ?t = "updateHealthSensors dt (cycle_dispatch dt (tick_entry dt s))"
  let ?P = "\<lambda>t::machine. alarmHistory t = alarmHistory s
    \<or> (\<exists>new. new \<noteq> [] \<and> (\<forall>e \<in> set new. \<not> cleared e)
          \<and> alarmHistory t = slice_last 20 (alarmHistory s @ new))"
  have "alarmHistory ?t = alarmHistory s"
    using kept_fields(6) [OF kept_updateHealthSensors] kept_fields(6) [OF kept_cycle_dispatch]
    by (simp add: kept_tick_entry)
  then have "?P ?t" by simp
  then have "?P (checkAlarms ?t)"
  proof (rule checkAlarms_inv [where P = ?P])
    fix t :: machine assume p: "?P t"
    have "alarmHistory (consume t) = alarmHistory t" by (simp add: consume_def)
    with p show "?P (consume t)" by (simp only:)
  next
    fix t :: machine and c msg assume p: "?P t"
    let ?e = "\<lparr>code = c, message = msg, timestamp_a = now t,
       cyclePhase_a = cyclePhase t, spindleLoad_a = spindleLoad t, cleared = False\<rparr>"
    have "\<exists>new. new \<noteq> [] \<and> (\<forall>e \<in> set new. \<not> cleared e)
        \<and> slice_last 20 (alarmHistory t @ [?e]) = slice_last 20 (alarmHistory s @ new)"
      by (rule appended_step [OF p]) simp
    then show "?P (setAlarm c msg t)"
      unfolding setAlarm_history by (rule disjI2)
  qed
  then show ?thesis
    using assms by (simp add: update_running updateWarnings_def)
qed

lemma update_history_alarm_tick:
  assumes "power_m s" and "truthy (alarm s)"
  shows "alarmHistory (update dt s) =
     (if draw s < 0.02
      then (if alarmHistory s = [] then []
            else butlast (alarmHistory s) @ [(last (alarmHistory s))\<lparr>cleared := True\<rparr>])
      else alarmHistory s)"
  using assms
  by (simp add: update_def Let_def tick_clock_def draw_def consume_def priv_clearAlarm_history)

lemma overheated_laser_facts:
  "power_m overheated_laser" "\<not> truthy (alarm overheated_laser)" "alarmHistory overheated_laser = []"
  "map message (alarmHistory (update 2 overheated_laser)) = [''LASER_POWER_FAULT'', ''RESONATOR_OVERHEAT'']"
  by (simp_all add: overheated_laser_def laser_init_expand laser_run_defs)

lemma run_inject_kept:
  "power_m (run (replicate k (InjectAlarm c msg)) s) = power_m s
   \<and> rand (run (replicate k (InjectAlarm c msg)) s) = rand s"
  by (induction k arbitrary: s) (simp_all add: injectAlarm_def setAlarm_def tick_clock_def Let_def)

lemma run_inject_alarm:
  "alarm (run (replicate (Suc k) (InjectAlarm c msg)) s) = Some msg"
proof (induction k arbitrary: s)
  case 0
  show ?case by (simp add: injectAlarm_def setAlarm_def tick_clock_def Let_def)
next
  case (Suc k)
  have "run (replicate (Suc (Suc k)) (InjectAlarm c msg)) s
      = run (replicate (Suc k) (InjectAlarm c msg)) (exec (InjectAlarm c msg) s)"
    by simp
  then show ?case by (simp only: Suc.IH)
qed

lemma full_press_facts: "power_m full_press" "truthy (alarm full_press)" "draw full_press < 0.02"
proof -
  have p: "power_m (durma_press (\<lambda>n. 0) (\<lambda>n. n))" "rand (durma_press (\<lambda>n. 0) (\<lambda>n. n)) = (\<lambda>n. 0)"
    by (simp_all add: durma_press_def init_def Let_def)
  show "power_m full_press" "draw full_press < 0.02"
    unfolding full_press_def draw_def by (simp_all only: run_inject_kept p) simp
  have "replicate 20 (InjectAlarm None ''E'') = replicate (Suc 19) (InjectAlarm None ''E'')"
    by simp
  then have "alarm full_press = Some ''E''"
    unfolding full_press_def by (simp only: run_inject_alarm)
  then show "truthy (alarm full_press)" by (simp add: truthy_def)
qed

text \<open>
  C6. From the constructed state, after every sequence of ticks and commands the alarm history
  has at most 20 entries. \<open>_setAlarm\<close>, through which both the evaluation of the alarms and
  \<open>injectAlarm\<close> go, appends the new entry, not cleared, and keeps the last 20 of the result:
  on a full history the oldest entry goes and the others keep their order. A tick entered with
  the power on and no active alarm leaves the history as it was or ends with the last 20 of the
  old history followed by the new entries, none of them cleared. Clearing, by \<open>clearAlarm\<close>
  or by the automatic clear of a tick entered with an active alarm, replaces the last entry by
  itself with \<open>cleared\<close> set and touches nothing else: no entry is removed, and lengths,
  codes and messages stay. A tick with the power off leaves the history alone.
\<close>

theorem alarmHistory_bounded:
  "length (alarmHistory (run cmds (init i n m ty args rnd clk))) \<le> 20
   \<and> alarmHistory (setAlarm c msg s) =
       slice_last 20 (alarmHistory s @ [\<lparr>code = c, message = msg, timestamp_a = now s,
          cyclePhase_a = cyclePhase s, spindleLoad_a = spindleLoad s, cleared = False\<rparr>])
   \<and> alarmHistory (injectAlarm c msg s) =
       slice_last 20 (alarmHistory s @ [\<lparr>code = c, message = msg, timestamp_a = now s,
          cyclePhase_a = cyclePhase s, spindleLoad_a = spindleLoad s, cleared = False\<rparr>])
   \<and> (length (alarmHistory s) = 20 \<longrightarrow>
        alarmHistory (injectAlarm c msg s) =
          tl (alarmHistory s) @ [\<lparr>code = c, message = msg, timestamp_a = now s,
            cyclePhase_a = cyclePhase s, spindleLoad_a = spindleLoad s, cleared = False\<rparr>])
   \<and> (power_m s \<and> \<not> truthy (alarm s) \<longrightarrow>
        alarmHistory (update dt s) = alarmHistory s
        \<or> (\<exists>new. new \<noteq> [] \<and> (\<forall>e \<in> set new. \<not> cleared e)
              \<and> alarmHistory (update dt s) = slice_last 20 (alarmHistory s @ new)))
   \<and> alarmHistory (clearAlarm s) =
       (if alarmHistory s = [] then []
        else butlast (alarmHistory s) @ [(last (alarmHistory s))\<lparr>cleared := True\<rparr>])
   \<and> (power_m s \<and> truthy (alarm s) \<longrightarrow>
        alarmHistory (update dt s) =
          (if draw s < 0.02
           then (if alarmHistory s = [] then []
                 else butlast (alarmHistory s) @ [(last (alarmHistory s))\<lparr>cleared := True\<rparr>])
           else alarmHistory s))
   \<and> (\<not> power_m s \<longrightarrow> alarmHistory (update dt s) = alarmHistory s)
   \<and> length (alarmHistory (clearAlarm s)) = length (alarmHistory s)
   \<and> map code (alarmHistory (clearAlarm s)) = map code (alarmHistory s)
   \<and> map message (alarmHistory (clearAlarm s)) = map message (alarmHistory s)"
  (is "?A \<and> ?S \<and> ?B \<and> ?C \<and> ?D \<and> ?E \<and> ?F \<and> ?G \<and> ?H \<and> ?I \<and> ?J")
proof -
  have a: ?A
    by (rule run_history_bound) (simp add: init_history)
  have s: ?S by (simp only: setAlarm_history)
  have b: ?B by (simp add: injectAlarm_def setAlarm_history)
  have 2: "slice_last 20 (h @ [e]) = tl h @ [e]" if "length h = 20" for h :: "alarm_entry list" and e
    using that by (cases h) (simp_all add: slice_last_def)
  have c: ?C unfolding b using 2 [of "alarmHistory s"] by blast
  have d: ?D using update_history_appended [of s dt] by blast
  have e: ?E by (simp only: clearAlarm_def priv_clearAlarm_history)
  have f: ?F using update_history_alarm_tick [of s dt] by blast
  have g: ?G by (simp add: update_def Let_def tick_clock_def)
  have 3: "map f (alarmHistory (clearAlarm s)) = map f (alarmHistory s)"
    if "\<And>e. f (e\<lparr>cleared := True\<rparr>) = f e" for f :: "alarm_entry \<Rightarrow> 'b"
    using that by (cases "alarmHistory s" rule: rev_cases)
      (simp_all add: clearAlarm_def priv_clearAlarm_history)
  have h: ?H by (simp add: clearAlarm_def priv_clearAlarm_length)
  have i: ?I by (rule 3) simp
  have j: ?J by (rule 3) simp
  from a s b c d e f g h i j show ?thesis by blast
qed

text \<open>
  The press brake with a full history: five more injected alarms keep it at 20, one more
  drops the oldest entry, and a clear (by command, or by the tick, whose draw of 0 is below
  0.02) marks the last entry in place. The laser of the section above has the power on and no
  alarm, and its tick changes the history.
\<close>

theorem alarmHistory_bounded_witness:
  "length (alarmHistory (run (replicate 25 (InjectAlarm None ''E'')) (durma_press (\<lambda>n. 0) (\<lambda>n. n)))) \<le> 20
   \<and> length (alarmHistory full_press) = 20
   \<and> alarmHistory (injectAlarm (Some 103) ''F'' full_press)
      = tl (alarmHistory full_press)
        @ [\<lparr>code = Some 103, message = ''F'', timestamp_a = now full_press,
            cyclePhase_a = cyclePhase full_press, spindleLoad_a = spindleLoad full_press,
            cleared = False\<rparr>]
   \<and> alarmHistory (clearAlarm full_press)
      = butlast (alarmHistory full_press) @ [(last (alarmHistory full_press))\<lparr>cleared := True\<rparr>]
   \<and> power_m full_press \<and> truthy (alarm full_press)
   \<and> alarmHistory (update 2 full_press)
      = butlast (alarmHistory full_press) @ [(last (alarmHistory full_press))\<lparr>cleared := True\<rparr>]
   \<and> power_m overheated_laser \<and> \<not> truthy (alarm overheated_laser)
   \<and> alarmHistory (update 2 overheated_laser) \<noteq> alarmHistory overheated_laser"
proof -
  note t1 = alarmHistory_bounded [of "replicate 25 (InjectAlarm None ''E'')" "''durma_press''"
      "''Durma Press Brake''" "''PRESS''" PRESS_BRAKE
      "\<lparr>axisLimits_arg = Some \<lparr>X = (0, 100), Y = (0, 2000), Z = (0, 300)\<rparr>,
         spindlePower_arg = None, maxRPM_arg = None, rapidTraverse_arg = None,
         toolCapacity_arg = None, maxTonnage_arg = Some 200, maxLaserPower_arg = None\<rparr>"
      "\<lambda>n. 0" "\<lambda>n. n" "Some 103" "''F''" full_press 2, folded durma_press_def]
  have ne: "alarmHistory full_press \<noteq> []" using full_press_length by auto
  have l: "alarmHistory (update 2 overheated_laser) \<noteq> alarmHistory overheated_laser"
    using overheated_laser_facts(3,4) by auto
  from t1 have x1: "length (alarmHistory (run (replicate 25 (InjectAlarm None ''E''))
      (durma_press (\<lambda>n. 0) (\<lambda>n. n)))) \<le> 20"
    by blast
  from t1 full_press_length
  have x2: "alarmHistory (injectAlarm (Some 103) ''F'' full_press)
      = tl (alarmHistory full_press)
        @ [\<lparr>code = Some 103, message = ''F'', timestamp_a = now full_press,
            cyclePhase_a = cyclePhase full_press, spindleLoad_a = spindleLoad full_press,
            cleared = False\<rparr>]"
    by blast
  from t1 have "alarmHistory (clearAlarm full_press) =
       (if alarmHistory full_press = [] then []
        else butlast (alarmHistory full_press) @ [(last (alarmHistory full_press))\<lparr>cleared := True\<rparr>])"
    by blast
  with ne have x3: "alarmHistory (clearAlarm full_press)
      = butlast (alarmHistory full_press) @ [(last (alarmHistory full_press))\<lparr>cleared := True\<rparr>]"
    by simp
  from t1 full_press_facts(1,2) have "alarmHistory (update 2 full_press) =
          (if draw full_press < 0.02
           then (if alarmHistory full_press = [] then []
                 else butlast (alarmHistory full_press) @ [(last (alarmHistory full_press))\<lparr>cleared := True\<rparr>])
           else alarmHistory full_press)"
    by blast
  with ne full_press_facts(3) have x4: "alarmHistory (update 2 full_press)
      = butlast (alarmHistory full_press) @ [(last (alarmHistory full_press))\<lparr>cleared := True\<rparr>]"
    by simp
  from x1 x2 x3 x4 full_press_length full_press_facts(1,2) overheated_laser_facts(1,2) l
  show ?thesis by blast
qed

subsection \<open>The snapshot\<close>

lemma abs_half:
  fixes k z :: real
  assumes "k \<le> z + 1 / 2" and "z + 1 / 2 < k + 1"
  shows "\<bar>k - z\<bar> * 2 \<le> 1"
proof -
  have "k - z \<le> 1 / 2" using assms(1) by simp
  moreover have "- (k - z) \<le> 1 / 2" using assms(2) by simp
  ultimately have "\<bar>k - z\<bar> \<le> 1 / 2" by (rule abs_leI)
  then show ?thesis by simp
qed

lemma half_floor: "\<bar>of_int \<lfloor>z + 1 / 2\<rfloor> - z\<bar> * 2 \<le> (1::real)"
  by (rule abs_half, rule of_int_floor_le, rule real_of_int_floor_add_one_gt)

lemma abs_scale:
  fixes a b c :: real
  assumes "0 < c"
  shows "\<bar>a - b\<bar> * c = \<bar>a * c - b * c\<bar>"
proof -
  have "\<bar>a * c - b * c\<bar> = \<bar>(a - b) * c\<bar>" by (simp add: left_diff_distrib)
  also have "\<dots> = \<bar>a - b\<bar> * \<bar>c\<bar>" by (rule abs_mult)
  finally show ?thesis using assms by simp
qed

lemma Math_round_nearest: "nearest_int x (Math_round x)"
  by (simp only: nearest_int_def Math_round_def half_floor)

lemma toFixed_rounded: "rounded_to d x (toFixed d x)"
proof -
  have p: "(10::real) ^ d > 0" by simp
  show ?thesis
  proof (cases "x < 0")
    case False
    let ?k = "\<lfloor>x * 10 ^ d + 1 / 2\<rfloor>"
    have y: "toFixed d x * 10 ^ d = of_int ?k"
      using False p by (simp add: toFixed_def)
    have "\<bar>toFixed d x - x\<bar> * 10 ^ d = \<bar>toFixed d x * 10 ^ d - x * 10 ^ d\<bar>"
      using p by (rule abs_scale)
    also have "\<dots> = \<bar>of_int ?k - x * 10 ^ d\<bar>" by (simp only: y)
    finally have "\<bar>toFixed d x - x\<bar> * (2 * 10 ^ d) = \<bar>of_int ?k - x * 10 ^ d\<bar> * 2"
      by simp
    with half_floor [of "x * 10 ^ d"] y show ?thesis
      by (simp add: rounded_to_def)
  next
    case True
    let ?k = "\<lfloor>(- x) * 10 ^ d + 1 / 2\<rfloor>"
    have y: "toFixed d x * 10 ^ d = of_int (- ?k)"
      using True p by (simp add: toFixed_def)
    have "\<bar>toFixed d x - x\<bar> * 10 ^ d = \<bar>toFixed d x * 10 ^ d - x * 10 ^ d\<bar>"
      using p by (rule abs_scale)
    also have "\<dots> = \<bar>of_int ?k - (- x) * 10 ^ d\<bar>"
      unfolding y by (simp add: abs_minus_commute)
    finally have "\<bar>toFixed d x - x\<bar> * (2 * 10 ^ d) = \<bar>of_int ?k - (- x) * 10 ^ d\<bar> * 2"
      by simp
    with half_floor [of "(- x) * 10 ^ d"] y show ?thesis
      unfolding rounded_to_def by (simp only: floor_of_int)
  qed
qed

lemma toFixed_example: "toFixed 1 45.34999 = 45.3"
  by (simp add: toFixed_def)

lemma slice_last_suffix: "\<exists>older. xs = older @ slice_last n xs"
  unfolding slice_last_def by (rule exI [of _ "take (length xs - n) xs"]) simp

lemma slice_last_length: "length (slice_last n xs) = min n (length xs)"
  unfolding slice_last_def by (simp add: min_def)

text \<open>
  C9. For every machine state the snapshot holds: the last 5 entries of the alarm history
  (all of them when there are fewer); \<open>spindleLoad\<close> and \<open>spindleTemp\<close> rounded to 1 decimal,
  so that a load of 45.34999 is written as 45.3; \<open>spindleSpeed\<close>, \<open>feedRate\<close>, \<open>rapidRate\<close>
  and \<open>temperature\<close> rounded to integers; \<open>machineOnHours\<close>, \<open>spindleHours\<close> and \<open>toolWear\<close>
  rounded to 3 decimals; the axis positions rounded to 2 decimals; the mill/lathe, press-brake
  and laser blocks exactly on a machine of that type; \<open>material\<close> and \<open>programRunning\<close> only
  when they are set (not null and not empty). Numbers are real numbers here: the binary
  rounding of \<open>toFixed\<close> on IEEE doubles is outside the model.
\<close>

theorem toJSON_contract:
  "alarmHistory_j (toJSON s) = slice_last 5 (alarmHistory s)
   \<and> length (alarmHistory_j (toJSON s)) = min 5 (length (alarmHistory s))
   \<and> (\<exists>older. alarmHistory s = older @ alarmHistory_j (toJSON s))
   \<and> (spindleLoad s = 45.34999 \<longrightarrow> spindleLoad_j (toJSON s) = 45.3)
   \<and> (rounded_to 1 (spindleLoad s) (spindleLoad_j (toJSON s))
   \<and> rounded_to 1 (spindleTemp s) (spindleTemp_j (toJSON s))
   \<and> nearest_int (spindleSpeed s) (spindleSpeed_j (toJSON s))
   \<and> nearest_int (feedRate s) (feedRate_j (toJSON s))
   \<and> nearest_int (rapidRate s) (rapidRate_j (toJSON s))
   \<and> nearest_int (temperature s) (temperature_j (toJSON s))
   \<and> rounded_to 3 (machineOnHours s) (machineOnHours_j (toJSON s))
   \<and> rounded_to 3 (spindleHours s) (spindleHours_j (toJSON s))
   \<and> (case cnc_j (toJSON s) of None \<Rightarrow> \<not> is_cnc (type_m s)
       | Some b \<Rightarrow> is_cnc (type_m s) \<and> rounded_to 3 (toolWear s) (toolWear_j b))
   \<and> rounded_to 2 (X (axisPositions s)) (X (axisPositions_j (toJSON s)))
   \<and> rounded_to 2 (Y (axisPositions s)) (Y (axisPositions_j (toJSON s)))
   \<and> rounded_to 2 (Z (axisPositions s)) (Z (axisPositions_j (toJSON s)))
   \<and> (press_j (toJSON s) \<noteq> None \<longleftrightarrow> type_m s = PRESS_BRAKE)
   \<and> (laser_j (toJSON s) \<noteq> None \<longleftrightarrow> type_m s = LASER)
   \<and> material_j (toJSON s) = (if truthy (material s) then material s else None)
   \<and> programRunning_j (toJSON s) = (if truthy (programRunning s) then programRunning s else None))"
  (is "?H1 \<and> ?H2 \<and> ?H3 \<and> ?EX \<and> ?REST")
proof -
  have h1: ?H1 by (simp add: toJSON_def)
  have h2: ?H2 unfolding h1 by (rule slice_last_length)
  have h3: ?H3 unfolding h1 by (rule slice_last_suffix)
  have ex: ?EX
  proof
    assume e: "spindleLoad s = 45.34999"
    have "spindleLoad_j (toJSON s) = toFixed 1 (spindleLoad s)" by (simp add: toJSON_def)
    also have "\<dots> = 45.3" unfolding e by (rule toFixed_example)
    finally show "spindleLoad_j (toJSON s) = 45.3" .
  qed
  have rest: ?REST
    by (simp add: toJSON_def toFixed_rounded Math_round_nearest)
  from h1 h2 h3 ex rest show ?thesis by blast
qed

theorem toJSON_contract_witness:
  "spindleLoad ((haas_vf2 (\<lambda>n. 0) (\<lambda>n. n))\<lparr>spindleLoad := 45.34999\<rparr>) = 45.34999
   \<and> spindleLoad_j (toJSON ((haas_vf2 (\<lambda>n. 0) (\<lambda>n. n))\<lparr>spindleLoad := 45.34999\<rparr>)) = 45.3
   \<and> cnc_j (toJSON ((haas_vf2 (\<lambda>n. 0) (\<lambda>n. n))\<lparr>spindleLoad := 45.34999\<rparr>)) \<noteq> None
   \<and> press_j (toJSON ((haas_vf2 (\<lambda>n. 0) (\<lambda>n. n))\<lparr>spindleLoad := 45.34999\<rparr>)) = None
   \<and> laser_j (toJSON ((haas_vf2 (\<lambda>n. 0) (\<lambda>n. n))\<lparr>spindleLoad := 45.34999\<rparr>)) = None
   \<and> material_j (toJSON ((haas_vf2 (\<lambda>n. 0) (\<lambda>n. n))\<lparr>spindleLoad := 45.34999\<rparr>)) = Some ''Aluminum 6061''"
proof -
  let ?s = "(haas_vf2 (\<lambda>n. 0) (\<lambda>n. n))\<lparr>spindleLoad := 45.34999\<rparr>"
  have f: "spindleLoad ?s = 45.34999" "type_m ?s = CNC_MILL" "material ?s = Some ''Aluminum 6061''"
    by (simp_all add: vf2_init_expand)
  from toJSON_contract [of ?s] f(1)
  have 1: "spindleLoad_j (toJSON ?s) = 45.3" by blast
  from toJSON_contract [of ?s]
  have 2: "case cnc_j (toJSON ?s) of None \<Rightarrow> \<not> is_cnc (type_m ?s) | Some b \<Rightarrow> is_cnc (type_m ?s) \<and> rounded_to 3 (toolWear ?s) (toolWear_j b)"
    and 3: "press_j (toJSON ?s) \<noteq> None \<longleftrightarrow> type_m ?s = PRESS_BRAKE"
    and 4: "laser_j (toJSON ?s) \<noteq> None \<longleftrightarrow> type_m ?s = LASER"
    and 5: "material_j (toJSON ?s) = (if truthy (material ?s) then material ?s else None)"
    by blast+
  have c: "cnc_j (toJSON ?s) \<noteq> None"
    using 2 unfolding f(2) by (cases "cnc_j (toJSON ?s)") (simp_all add: is_cnc_def)
  have p: "press_j (toJSON ?s) = None" using 3 unfolding f(2) by simp
  have l: "laser_j (toJSON ?s) = None" using 4 unfolding f(2) by simp
  have m: "material_j (toJSON ?s) = Some ''Aluminum 6061''" using 5 unfolding f(3) by (simp add: truthy_def)
  from f(1) 1 c p l m show ?thesis by blast
qed

end
